theory Spec2Isabelle
  imports Main "HOL-Library.Multiset"
begin

section \<open>Values shared by the SQL migration and the TypeScript client\<close>

text \<open>
  A \<open>uuid\<close> is carried in its canonical text form: that is what \<open>user.id\<close> is in the
  TypeScript client (a string) and what the cast \<open>auth.uid()::text\<close> of the storage
  policies produces. The numbers of the client (file sizes, byte counts, milliseconds)
  are integers. A \<open>bigint\<close> is an integer of the signed 64-bit range; the sum of a \<open>bigint\<close>
  column is exact in SQL (it is computed in \<open>numeric\<close>), and a value that is stored in
  or returned as a \<open>bigint\<close> outside the range raises \<open>numeric_value_out_of_range\<close>.
\<close>

type_synonym uuid = string
type_synonym timestamptz = int

text \<open>The canonical text of a uuid: 36 characters, lower-case hexadecimal digits in
  groups of 8-4-4-4-12 separated by hyphens.\<close>

definition is_hex :: "char \<Rightarrow> bool" where
  "is_hex c = (c \<in> set ''0123456789abcdef'')"

definition is_uuid :: "string \<Rightarrow> bool" where
  "is_uuid s =
     (length s = 36 \<and>
      list_all (\<lambda>i. if i \<in> set [8, 13, 18, 23] then s ! i = CHR ''-'' else is_hex (s ! i))
        [0 ..< 36])"

text \<open>
  Splitting a string at a separator character. JavaScript's \<open>s.split(".")\<close> and the
  pieces of PostgreSQL's \<open>string_to_array(s, '/')\<close> on a non-empty string are both this
  function: a string without the separator gives one piece, and the empty string gives
  one empty piece.
\<close>

fun split :: "char \<Rightarrow> string \<Rightarrow> string list" where
  "split c [] = [[]]"
| "split c (x # xs) =
     (if x = c then [] # split c xs
      else (case split c xs of
              [] \<Rightarrow> [[x]]
            | w # ws \<Rightarrow> (x # w) # ws))"

text \<open>\<open>Array.prototype.pop\<close> on the result of \<open>split\<close>: the last piece, \<open>undefined\<close> on an
  empty array.\<close>

definition pop :: "'a list \<Rightarrow> 'a option" where
  "pop xs = (case rev xs of [] \<Rightarrow> None | x # _ \<Rightarrow> Some x)"

text \<open>Decimal digits of a number, as a template literal \<open>`${n}`\<close> prints a non-negative
  integer.\<close>

definition digit_char :: "nat \<Rightarrow> char" where
  "digit_char d = ''0123456789'' ! (d mod 10)"

fun show_nat :: "nat \<Rightarrow> string" where
  "show_nat n = (if n < 10 then [digit_char n] else show_nat (n div 10) @ [digit_char (n mod 10)])"

text \<open>A template literal prints \<open>undefined\<close> as the word.\<close>

definition show_opt :: "string option \<Rightarrow> string" where
  "show_opt x = (case x of None \<Rightarrow> ''undefined'' | Some s \<Rightarrow> s)"

subsection \<open>SQL helpers\<close>

text \<open>What a statement or a request gives back instead of a result.\<close>

datatype error =
    Request_failed
  | Policy_violation
  | Unique_violation
  | Foreign_key_violation
  | Numeric_value_out_of_range
  | Payload_too_large
  | Already_exists
  | Not_found

text \<open>The range of \<open>bigint\<close>, and the cast of an exact number to it.\<close>

definition bigint_ok :: "int \<Rightarrow> bool" where
  "bigint_ok n = (- (2 ^ 63) \<le> n \<and> n < 2 ^ 63)"

definition to_bigint :: "int \<Rightarrow> error + int" where
  "to_bigint n = (if bigint_ok n then Inr n else Inl Numeric_value_out_of_range)"

text \<open>\<open>sum\<close> over a column without NULLs: NULL on no rows.\<close>

fun sql_sum :: "int list \<Rightarrow> int option" where
  "sql_sum [] = None"
| "sql_sum (x # xs) = Some (case sql_sum xs of None \<Rightarrow> x | Some s \<Rightarrow> x + s)"

definition coalesce :: "'a option \<Rightarrow> 'a \<Rightarrow> 'a" where
  "coalesce v d = (case v of None \<Rightarrow> d | Some x \<Rightarrow> x)"

text \<open>\<open>string_to_array(s, '/')\<close>: the empty string gives the empty array.\<close>

definition string_to_array :: "string \<Rightarrow> string list" where
  "string_to_array s = (if s = [] then [] else split CHR ''/'' s)"

text \<open>
  Modelled from the spec: \<open>storage.foldername\<close> is a function of the storage platform and
  is not in the repository. The spec describes the storage policies as comparing the
  caller's identity against the first segment of the object's path; the platform's
  function returns the segments of the name without the last one (the file name), so an
  object at the top level of the bucket is in no folder.
\<close>

definition foldername :: "string \<Rightarrow> string list" where
  "foldername name = butlast (string_to_array name)"

text \<open>The array subscript \<open>a[1]\<close>: the first element, NULL on an empty array.\<close>

definition subscript1 :: "'a list \<Rightarrow> 'a option" where
  "subscript1 a = (case a of [] \<Rightarrow> None | x # _ \<Rightarrow> Some x)"

section \<open>The schema of the migration\<close>

text \<open>
  One record per table, one field per column, nullable columns as options. The column
  \<open>id\<close> of each table is named after its table (\<open>book_id\<close>, \<open>profile_id\<close>, \<open>role_id\<close>,
  \<open>auth_id\<close>), \<open>user_roles.user_id\<close> is \<open>role_user_id\<close>, and the columns of
  \<open>storage.objects\<close> and \<open>auth.users\<close> are the ones the migration reads or writes.
\<close>

datatype app_role = admin | user

record profile =
  profile_id :: uuid
  email :: "string option"
  full_name :: "string option"
  created_at :: "timestamptz option"

record user_role =
  role_id :: uuid
  role_user_id :: uuid
  role :: app_role

record book =
  book_id :: uuid
  user_id :: uuid
  title :: string
  author :: "string option"
  file_path :: string
  file_size :: int
  file_type :: "string option"
  cover_url :: "string option"
  uploaded_at :: "timestamptz option"

record storage_object =
  bucket_id :: string
  name :: string
  object_size :: nat
  content_type :: string

record auth_user =
  auth_id :: uuid
  auth_email :: "string option"
  raw_user_meta_data :: "(string \<times> string) list"

record backend =
  auth_users :: "auth_user list"
  profiles :: "profile list"
  user_roles :: "user_role list"
  books :: "book list"
  objects :: "storage_object list"

text \<open>The bucket created by the migration: private, with a size limit per object.\<close>

definition file_size_limit :: nat where
  "file_size_limit = 209715200"

subsection \<open>Row-level security policies\<close>

text \<open>
  Each policy is the predicate of its \<open>using\<close> or \<open>with check\<close> clause, on the caller's
  identity \<open>auth.uid()\<close> and the row. All of them are granted to the role
  \<open>authenticated\<close>, so the caller has an identity. A comparison with NULL is not true,
  so a policy does not admit a row on it.
\<close>

definition books_select_policy :: "uuid \<Rightarrow> book \<Rightarrow> bool" where
  "books_select_policy uid r = (uid = user_id r)"

definition books_insert_policy :: "uuid \<Rightarrow> book \<Rightarrow> bool" where
  "books_insert_policy uid r = (uid = user_id r)"

definition books_delete_policy :: "uuid \<Rightarrow> book \<Rightarrow> bool" where
  "books_delete_policy uid r = (uid = user_id r)"

definition objects_select_policy :: "uuid \<Rightarrow> storage_object \<Rightarrow> bool" where
  "objects_select_policy uid ob =
     (bucket_id ob = ''books'' \<and> Some uid = subscript1 (foldername (name ob)))"

definition objects_insert_policy :: "uuid \<Rightarrow> storage_object \<Rightarrow> bool" where
  "objects_insert_policy uid ob =
     (bucket_id ob = ''books'' \<and> Some uid = subscript1 (foldername (name ob)))"

definition objects_delete_policy :: "uuid \<Rightarrow> storage_object \<Rightarrow> bool" where
  "objects_delete_policy uid ob =
     (bucket_id ob = ''books'' \<and> Some uid = subscript1 (foldername (name ob)))"

subsection \<open>The storage-used aggregate\<close>

text \<open>
  \<^verbatim>\<open>select coalesce(sum(file_size), 0) from public.books where user_id = user_uuid\<close>
  in a function declared \<open>returns bigint\<close>: the sum is exact, and the result of the
  select is cast to the return type.
\<close>

definition get_user_storage_used :: "uuid \<Rightarrow> book list \<Rightarrow> error + int" where
  "get_user_storage_used user_uuid tbl =
     to_bigint (coalesce (sql_sum (map file_size (filter (\<lambda>r. user_id r = user_uuid) tbl))) 0)"

section \<open>The platform's operations under the migration's schema and policies\<close>

text \<open>
  The client calls the hosted platform for every read and write. The operations are the
  platform's own; what the repository fixes about them is in the migration: the columns
  and constraints of the tables, the row-level security policies and the bucket with its
  size limit. An operation is a function on the tables it touches, with the caller's
  identity \<open>auth.uid()\<close>, that applies those declarations. Every request can also fail
  for a reason outside the repository (network, platform): the flag \<open>fault\<close> stands for
  that, and a failed request changes nothing.
\<close>

text \<open>\<open>insert into public.books\<close>: the range of the \<open>bigint\<close> column, the insert policy,
  the primary key and the foreign key to \<open>auth.users\<close>.\<close>

definition insert_books :: "uuid \<Rightarrow> bool \<Rightarrow> book \<Rightarrow> backend \<Rightarrow> error + book list" where
  "insert_books uid fault r be =
     (if fault then Inl Request_failed
      else if \<not> bigint_ok (file_size r) then Inl Numeric_value_out_of_range
      else if \<not> books_insert_policy uid r then Inl Policy_violation
      else if book_id r \<in> set (map book_id (books be)) then Inl Unique_violation
      else if user_id r \<notin> set (map auth_id (auth_users be)) then Inl Foreign_key_violation
      else Inr (books be @ [r]))"

text \<open>\<open>delete from public.books where ...\<close>: only rows that the select and the delete
  policy admit are affected; a delete that affects no row is not an error.\<close>

definition delete_books :: "uuid \<Rightarrow> bool \<Rightarrow> (book \<Rightarrow> bool) \<Rightarrow> book list \<Rightarrow> error + book list" where
  "delete_books uid fault cond tbl =
     (if fault then Inl Request_failed
      else Inr (filter (\<lambda>r. \<not> (books_select_policy uid r \<and> books_delete_policy uid r \<and> cond r)) tbl))"

text \<open>\<open>select * from public.books where ...\<close>: only rows that the select policy admits.\<close>

definition select_books :: "uuid \<Rightarrow> bool \<Rightarrow> (book \<Rightarrow> bool) \<Rightarrow> book list \<Rightarrow> error + book list" where
  "select_books uid fault cond tbl =
     (if fault then Inl Request_failed
      else Inr (filter (\<lambda>r. books_select_policy uid r \<and> cond r) tbl))"

text \<open>\<open>order by uploaded_at desc\<close>: NULLs first, then the latest first. (The order of rows
  with equal keys is not determined by SQL; the stable sort is one of the orders.)\<close>

definition order_by_uploaded_at_desc :: "book list \<Rightarrow> book list" where
  "order_by_uploaded_at_desc rows =
     filter (\<lambda>r. uploaded_at r = None) rows @
     sort_key (\<lambda>r. case uploaded_at r of None \<Rightarrow> 0 | Some t \<Rightarrow> - t)
       (filter (\<lambda>r. uploaded_at r \<noteq> None) rows)"

text \<open>The remote call of \<open>get_user_storage_used\<close> (a \<open>security definer\<close> function: it reads
  the table without the policies). An error of the function is the error of the call.\<close>

definition rpc_get_user_storage_used :: "bool \<Rightarrow> uuid \<Rightarrow> backend \<Rightarrow> error + int" where
  "rpc_get_user_storage_used fault user_uuid be =
     (if fault then Inl Request_failed else get_user_storage_used user_uuid (books be))"

text \<open>A file as the browser hands it to the client: \<open>file.name\<close>, \<open>file.size\<close>, \<open>file.type\<close>.\<close>

record File =
  f_name :: string
  f_size :: nat
  f_type :: string

text \<open>Upload of one object into the bucket \<open>books\<close>: the insert policy on
  \<open>storage.objects\<close>, the bucket's size limit, and no overwriting of an existing name.\<close>

definition storage_upload ::
  "uuid \<Rightarrow> bool \<Rightarrow> string \<Rightarrow> File \<Rightarrow> storage_object list \<Rightarrow> error + storage_object list" where
  "storage_upload uid fault path f objs =
     (let ob = \<lparr>bucket_id = ''books'', name = path, object_size = f_size f,
                content_type = f_type f\<rparr>
      in if fault then Inl Request_failed
         else if \<not> objects_insert_policy uid ob then Inl Policy_violation
         else if file_size_limit < f_size f then Inl Payload_too_large
         else if list_ex (\<lambda>ob'. bucket_id ob' = ''books'' \<and> name ob' = path) objs then Inl Already_exists
         else Inr (objs @ [ob]))"

text \<open>Removal of objects of the bucket \<open>books\<close> by name: only objects that the select and
  the delete policy admit are removed; removing nothing is not an error.\<close>

definition storage_remove ::
  "uuid \<Rightarrow> bool \<Rightarrow> string list \<Rightarrow> storage_object list \<Rightarrow> error + storage_object list" where
  "storage_remove uid fault paths objs =
     (if fault then Inl Request_failed
      else Inr (filter (\<lambda>ob. \<not> (bucket_id ob = ''books'' \<and> name ob \<in> set paths \<and>
                              objects_select_policy uid ob \<and> objects_delete_policy uid ob)) objs))"

text \<open>Download of one object of the bucket \<open>books\<close>: a select on \<open>storage.objects\<close> under
  the select policy.\<close>

definition storage_download ::
  "uuid \<Rightarrow> bool \<Rightarrow> string \<Rightarrow> storage_object list \<Rightarrow> error + storage_object" where
  "storage_download uid fault path objs =
     (if fault then Inl Request_failed
      else (case find (\<lambda>ob. bucket_id ob = ''books'' \<and> name ob = path \<and>
                            objects_select_policy uid ob) objs of
              None \<Rightarrow> Inl Not_found
            | Some ob \<Rightarrow> Inr ob))"

section \<open>The signup trigger\<close>

text \<open>\<open>insert into public.profiles\<close> and \<open>insert into public.user_roles\<close> as the trigger
  function runs them: it is \<open>security definer\<close>, so the constraints of the tables apply
  and the policies do not.\<close>

definition insert_profiles :: "profile \<Rightarrow> backend \<Rightarrow> error + backend" where
  "insert_profiles p be =
     (if profile_id p \<in> set (map profile_id (profiles be)) then Inl Unique_violation
      else if profile_id p \<notin> set (map auth_id (auth_users be)) then Inl Foreign_key_violation
      else Inr (be\<lparr>profiles := profiles be @ [p]\<rparr>))"

definition insert_user_roles :: "user_role \<Rightarrow> backend \<Rightarrow> error + backend" where
  "insert_user_roles r be =
     (if role_id r \<in> set (map role_id (user_roles be)) then Inl Unique_violation
      else if list_ex (\<lambda>q. role_user_id q = role_user_id r \<and> role q = role r) (user_roles be)
        then Inl Unique_violation
      else if role_user_id r \<notin> set (map auth_id (auth_users be)) then Inl Foreign_key_violation
      else Inr (be\<lparr>user_roles := user_roles be @ [r]\<rparr>))"

text \<open>
  \<open>handle_new_user\<close>, for the new row \<open>new\<close> of \<open>auth.users\<close>. \<open>ts\<close> is \<open>now()\<close>, the
  default of \<open>created_at\<close>, and \<open>rid\<close> is \<open>gen_random_uuid()\<close>, the default of
  \<open>user_roles.id\<close>. \<open>raw_user_meta_data->>'full_name'\<close> is the text under the key, NULL
  when the key is absent.
\<close>

definition handle_new_user :: "timestamptz \<Rightarrow> uuid \<Rightarrow> auth_user \<Rightarrow> backend \<Rightarrow> error + backend" where
  "handle_new_user ts rid new be =
     (case insert_profiles
             \<lparr>profile_id = auth_id new, email = auth_email new,
              full_name = map_of (raw_user_meta_data new) ''full_name'',
              created_at = Some ts\<rparr> be of
        Inl e \<Rightarrow> Inl e
      | Inr be1 \<Rightarrow>
          insert_user_roles \<lparr>role_id = rid, role_user_id = auth_id new, role = user\<rparr> be1)"

text \<open>
  Modelled from the spec: the creation of an identity is done by the auth platform and
  is not in the repository. The spec says that the trigger runs as part of the same
  transaction as the creation of the identity. The platform inserts the row into
  \<open>auth.users\<close> (whose primary key is \<open>id\<close>), the trigger \<open>on_auth_user_created\<close> runs
  after the insert for that row, and an error anywhere rolls the transaction back: the
  state is the one before.
\<close>

definition create_identity ::
  "timestamptz \<Rightarrow> uuid \<Rightarrow> auth_user \<Rightarrow> backend \<Rightarrow> (error + unit) \<times> backend" where
  "create_identity ts rid new be =
     (if auth_id new \<in> set (map auth_id (auth_users be)) then (Inl Unique_violation, be)
      else (case handle_new_user ts rid new (be\<lparr>auth_users := auth_users be @ [new]\<rparr>) of
              Inl e \<Rightarrow> (Inl e, be)
            | Inr be' \<Rightarrow> (Inr (), be')))"

section \<open>The client\<close>

text \<open>
  A handler of a React component is a function from the props and state it closes over
  to the new state, together with the list of what it does to the outside, in order:
  notifications, requests to the platform, callbacks. The requests act on the backend,
  which is threaded through. What the outside world supplies during one call of a
  handler is collected in \<open>env\<close>: the user of the session (the result of
  \<open>supabase.auth.getUser()\<close>, and the identity \<open>auth.uid()\<close> of the requests),
  \<open>Date.now()\<close>, the defaults \<open>gen_random_uuid()\<close> and \<open>now()\<close> that the database fills
  in, and whether each request fails for an outside reason.
\<close>

datatype action =
    Toast_error string
  | Toast_success string
  | Console_error string
  | Auth_getUser
  | Storage_upload string File
  | Storage_remove "string list"
  | Storage_download string
  | Books_insert book
  | Books_delete uuid
  | Books_select uuid
  | Rpc_get_user_storage_used uuid
  | OnBookUploaded
  | Save_file string storage_object

record env =
  session_user :: "uuid option"
  date_now :: nat
  gen_random_uuid :: uuid
  sql_now :: timestamptz
  upload_fault :: bool
  insert_fault :: bool
  remove_fault :: bool
  delete_fault :: bool
  select_fault :: bool
  rpc_fault :: bool
  download_fault :: bool

subsection \<open>UploadBookDialog\<close>

record props =
  storageUsed :: int
  storageLimit :: int

text \<open>The state hooks \<open>title\<close>, \<open>author\<close>, \<open>file\<close>, \<open>uploading\<close>.\<close>

record dialog =
  st_title :: string
  st_author :: string
  st_file :: "File option"
  st_uploading :: bool

definition dialog_init :: dialog where
  "dialog_init = \<lparr>st_title = [], st_author = [], st_file = None, st_uploading = False\<rparr>"

text \<open>\<open>handleFileChange\<close>; the argument is \<open>e.target.files\<close>, which can be null or empty.\<close>

definition handleFileChange :: "props \<Rightarrow> dialog \<Rightarrow> File list option \<Rightarrow> dialog \<times> action list" where
  "handleFileChange P st files =
     (case files of
        None \<Rightarrow> (st, [])
      | Some [] \<Rightarrow> (st, [])
      | Some (selectedFile # _) \<Rightarrow>
          if storageUsed P + int (f_size selectedFile) > storageLimit P
          then (st, [Toast_error ''This file would exceed your storage limit of 200MB''])
          else (st\<lparr>st_file := Some selectedFile\<rparr>, []))"

text \<open>The object path \<open>`${user.id}/${Date.now()}.${fileExt}`\<close> with
  \<open>fileExt = file.name.split(".").pop()\<close>.\<close>

definition fileName :: "uuid \<Rightarrow> nat \<Rightarrow> File \<Rightarrow> string" where
  "fileName uid now f =
     uid @ ''/'' @ show_nat now @ ''.'' @ show_opt (pop (split CHR ''.'' (f_name f)))"

text \<open>The row that the insert of \<open>handleUpload\<close> asks for, with the defaults of the
  columns it leaves out. \<open>author || null\<close> turns the empty string into NULL.\<close>

definition new_book :: "env \<Rightarrow> uuid \<Rightarrow> dialog \<Rightarrow> File \<Rightarrow> book" where
  "new_book ev uid st f =
     \<lparr>book_id = gen_random_uuid ev, user_id = uid, title = st_title st,
      author = (if st_author st = [] then None else Some (st_author st)),
      file_path = fileName uid (date_now ev) f, file_size = int (f_size f),
      file_type = Some (f_type f), cover_url = None, uploaded_at = Some (sql_now ev)\<rparr>"

text \<open>\<open>handleUpload\<close>. \<open>setUploading(true)\<close> is undone on every path that set it, so the
  state on return has \<open>uploading\<close> false there.\<close>

definition handleUpload :: "env \<Rightarrow> dialog \<Rightarrow> backend \<Rightarrow> dialog \<times> backend \<times> action list" where
  "handleUpload ev st be =
     (case st_file st of
        None \<Rightarrow> (st, be, [Toast_error ''Please select a file''])
      | Some f \<Rightarrow>
         (case session_user ev of
            None \<Rightarrow>
              (st\<lparr>st_uploading := False\<rparr>, be,
               [Auth_getUser, Toast_error ''You must be logged in to upload books''])
          | Some uid \<Rightarrow>
             (let path = fileName uid (date_now ev) f
              in case storage_upload uid (upload_fault ev) path f (objects be) of
                   Inl uploadError \<Rightarrow>
                     (st\<lparr>st_uploading := False\<rparr>, be,
                      [Auth_getUser, Storage_upload path f, Toast_error ''Failed to upload file''])
                 | Inr objs \<Rightarrow>
                    (let be1 = be\<lparr>objects := objs\<rparr>;
                         row = new_book ev uid st f
                     in case insert_books uid (insert_fault ev) row be1 of
                          Inl dbError \<Rightarrow>
                            (st\<lparr>st_uploading := False\<rparr>,
                             (case storage_remove uid (remove_fault ev) [path] (objects be1) of
                                Inl e \<Rightarrow> be1
                              | Inr objs' \<Rightarrow> be1\<lparr>objects := objs'\<rparr>),
                             [Auth_getUser, Storage_upload path f, Books_insert row,
                              Storage_remove [path],
                              Toast_error ''Failed to save book information''])
                        | Inr tbl \<Rightarrow>
                            (\<lparr>st_title = [], st_author = [], st_file = None,
                              st_uploading = False\<rparr>,
                             be1\<lparr>books := tbl\<rparr>,
                             [Auth_getUser, Storage_upload path f, Books_insert row,
                              Toast_success ''Book uploaded successfully!'',
                              OnBookUploaded])))))"

text \<open>
  The life of one dialog: its events are the selection of a file, the edits of the two
  text fields and the submission of the form. Each event comes with the props of the
  render whose handler it runs, since the parent can pass new props between events.
\<close>

datatype event =
    FileChange "File list option"
  | SetTitle string
  | SetAuthor string
  | Submit env

fun dialog_step :: "props \<Rightarrow> event \<Rightarrow> dialog \<times> backend \<Rightarrow> (dialog \<times> backend) \<times> action list" where
  "dialog_step P (FileChange files) (st, be) =
     (case handleFileChange P st files of (st', acts) \<Rightarrow> ((st', be), acts))"
| "dialog_step P (SetTitle v) (st, be) = ((st\<lparr>st_title := v\<rparr>, be), [])"
| "dialog_step P (SetAuthor v) (st, be) = ((st\<lparr>st_author := v\<rparr>, be), [])"
| "dialog_step P (Submit ev) (st, be) =
     (case handleUpload ev st be of (st', be', acts) \<Rightarrow> ((st', be'), acts))"

fun dialog_run :: "(props \<times> event) list \<Rightarrow> dialog \<times> backend \<Rightarrow> (dialog \<times> backend) \<times> action list" where
  "dialog_run [] s = (s, [])"
| "dialog_run ((P, e) # evs) s =
     (case dialog_step P e s of
        (s1, acts1) \<Rightarrow> (case dialog_run evs s1 of (s2, acts2) \<Rightarrow> (s2, acts1 @ acts2)))"

subsection \<open>Library\<close>

definition STORAGE_LIMIT :: int where
  "STORAGE_LIMIT = 200 * 1024 * 1024"

text \<open>The state hooks \<open>user\<close>, \<open>books\<close>, \<open>storageUsed\<close>, \<open>uploadDialogOpen\<close>, \<open>loading\<close>.\<close>

record library =
  st_user :: "uuid option"
  st_books :: "book list"
  st_storageUsed :: int
  st_uploadDialogOpen :: bool
  st_loading :: bool

definition library_init :: library where
  "library_init =
     \<lparr>st_user = None, st_books = [], st_storageUsed = 0, st_uploadDialogOpen = False,
      st_loading = True\<rparr>"

definition fetchBooks :: "env \<Rightarrow> library \<Rightarrow> backend \<Rightarrow> library \<times> action list" where
  "fetchBooks ev lib be =
     (case st_user lib of
        None \<Rightarrow> (lib, [])
      | Some uid \<Rightarrow>
         (case select_books uid (select_fault ev) (\<lambda>r. user_id r = uid) (books be) of
            Inl e \<Rightarrow> (lib\<lparr>st_loading := False\<rparr>, [Books_select uid, Toast_error ''Failed to load books''])
          | Inr rows \<Rightarrow>
              (lib\<lparr>st_books := order_by_uploaded_at_desc rows, st_loading := False\<rparr>,
               [Books_select uid])))"

definition fetchStorageUsed :: "env \<Rightarrow> library \<Rightarrow> backend \<Rightarrow> library \<times> action list" where
  "fetchStorageUsed ev lib be =
     (case st_user lib of
        None \<Rightarrow> (lib, [])
      | Some uid \<Rightarrow>
         (case rpc_get_user_storage_used (rpc_fault ev) uid be of
            Inl e \<Rightarrow> (lib, [Rpc_get_user_storage_used uid])
          | Inr n \<Rightarrow> (lib\<lparr>st_storageUsed := n\<rparr>, [Rpc_get_user_storage_used uid])))"

text \<open>\<open>handleDeleteBook\<close>. The two fetches at its end only read the backend.\<close>

definition handleDeleteBook :: "env \<Rightarrow> library \<Rightarrow> backend \<Rightarrow> book \<Rightarrow> library \<times> backend \<times> action list" where
  "handleDeleteBook ev lib be b =
     (case st_user lib of
        None \<Rightarrow> (lib, be, [])
      | Some uid \<Rightarrow>
         (case delete_books uid (delete_fault ev) (\<lambda>r. book_id r = book_id b) (books be) of
            Inl dbError \<Rightarrow>
              (lib, be, [Books_delete (book_id b), Toast_error ''Failed to delete book''])
          | Inr tbl \<Rightarrow>
             (let be1 = be\<lparr>books := tbl\<rparr>;
                  (be2, logged) =
                    (case storage_remove uid (remove_fault ev) [file_path b] (objects be1) of
                       Inl storageError \<Rightarrow> (be1, [Console_error ''Storage deletion error:''])
                     | Inr objs \<Rightarrow> (be1\<lparr>objects := objs\<rparr>, []));
                  (lib1, acts1) = fetchBooks ev lib be2;
                  (lib2, acts2) = fetchStorageUsed ev lib1 be2
              in (lib2, be2,
                  [Books_delete (book_id b), Storage_remove [file_path b]] @ logged @
                  [Toast_success ''Book deleted successfully''] @ acts1 @ acts2))))"

definition handleBookUploaded :: "env \<Rightarrow> library \<Rightarrow> backend \<Rightarrow> library \<times> action list" where
  "handleBookUploaded ev lib be =
     (let (lib1, acts1) = fetchBooks ev lib be;
          (lib2, acts2) = fetchStorageUsed ev lib1 be
      in (lib2\<lparr>st_uploadDialogOpen := False\<rparr>, acts1 @ acts2))"

subsection \<open>BookCard\<close>

text \<open>\<open>handleDownload\<close>: the object is fetched with the identity of the session and saved
  under \<open>`${book.title}.${book.file_path.split(".").pop()}`\<close>.\<close>

definition handleDownload :: "env \<Rightarrow> backend \<Rightarrow> book \<Rightarrow> action list" where
  "handleDownload ev be b =
     (case session_user ev of
        None \<Rightarrow> [Storage_download (file_path b), Toast_error ''Failed to download book'']
      | Some uid \<Rightarrow>
         (case storage_download uid (download_fault ev) (file_path b) (objects be) of
            Inl e \<Rightarrow> [Storage_download (file_path b), Toast_error ''Failed to download book'']
          | Inr ob \<Rightarrow>
              [Storage_download (file_path b),
               Save_file (title b @ ''.'' @ show_opt (pop (split CHR ''.'' (file_path b)))) ob,
               Toast_success ''Book downloaded successfully'']))"

section \<open>The system: any number of users acting on one backend\<close>

text \<open>
  Rows of \<open>books\<close> are created by \<open>handleUpload\<close> and removed by \<open>handleDeleteBook\<close>;
  identities are created by signup. An event carries the state of the component that
  handles it, any state at all.
\<close>

datatype app_event =
    Upload env dialog
  | Delete env library book
  | Signup timestamptz uuid auth_user

fun app_step :: "app_event \<Rightarrow> backend \<Rightarrow> backend" where
  "app_step (Upload ev st) be = fst (snd (handleUpload ev st be))"
| "app_step (Delete ev lib b) be = fst (snd (handleDeleteBook ev lib be b))"
| "app_step (Signup ts rid new) be = snd (create_identity ts rid new be)"

fun app_run :: "app_event list \<Rightarrow> backend \<Rightarrow> backend" where
  "app_run [] be = be"
| "app_run (e # es) be = app_run es (app_step e be)"

text \<open>The invariant of the data model: the path of every book row is in the folder of
  the row's owner.\<close>

definition path_namespaced :: "book \<Rightarrow> bool" where
  "path_namespaced r = (subscript1 (foldername (file_path r)) = Some (user_id r))"

definition books_namespaced :: "backend \<Rightarrow> bool" where
  "books_namespaced be = list_all path_namespaced (books be)"

text \<open>The upload events of a run are made by users whose id is a uuid.\<close>

fun uploader_ok :: "app_event \<Rightarrow> bool" where
  "uploader_ok (Upload ev st) = (case session_user ev of None \<Rightarrow> True | Some uid \<Rightarrow> is_uuid uid)"
| "uploader_ok _ = True"

section \<open>Example values\<close>

definition alice :: uuid where
  "alice = ''11111111-1111-4111-8111-111111111111''"

definition bob :: uuid where
  "bob = ''22222222-2222-4222-8222-222222222222''"

definition env0 :: env where
  "env0 = \<lparr>session_user = Some alice, date_now = 1700000000000,
           gen_random_uuid = ''aaaaaaaa-aaaa-4aaa-8aaa-aaaaaaaaaaaa'', sql_now = 1700000000123,
           upload_fault = False, insert_fault = False, remove_fault = False,
           delete_fault = False, select_fault = False, rpc_fault = False,
           download_fault = False\<rparr>"

definition be0 :: backend where
  "be0 = \<lparr>auth_users =
            [\<lparr>auth_id = alice, auth_email = Some ''alice@example.org'', raw_user_meta_data = []\<rparr>,
             \<lparr>auth_id = bob, auth_email = Some ''bob@example.org'', raw_user_meta_data = []\<rparr>],
          profiles = [], user_roles = [], books = [], objects = []\<rparr>"

definition novel :: File where
  "novel = \<lparr>f_name = ''novel.epub'', f_size = 52428800, f_type = ''application/epub+zip''\<rparr>"

definition bobs_book :: book where
  "bobs_book =
     \<lparr>book_id = ''bbbbbbbb-bbbb-4bbb-8bbb-bbbbbbbbbbbb'', user_id = bob, title = ''Atlas'',
      author = None, file_path = bob @ ''/1690000000000.pdf'', file_size = 1000,
      file_type = Some ''application/pdf'', cover_url = None, uploaded_at = Some 1690000000456\<rparr>"

definition alices_book :: book where
  "alices_book =
     \<lparr>book_id = ''cccccccc-cccc-4ccc-8ccc-cccccccccccc'', user_id = alice, title = ''Odyssey'',
      author = Some ''Homer'', file_path = alice @ ''/1690000000001.epub'', file_size = 2000,
      file_type = Some ''application/epub+zip'', cover_url = None,
      uploaded_at = Some 1690000000789\<rparr>"

definition object_of :: "book \<Rightarrow> storage_object" where
  "object_of r = \<lparr>bucket_id = ''books'', name = file_path r, object_size = nat (file_size r),
                  content_type = ''application/octet-stream''\<rparr>"

text \<open>What the selection of a file establishes for the props it was checked against:
  the file held by the dialog, if any, fits in the quota.\<close>

definition quota_ok :: "props \<Rightarrow> dialog \<Rightarrow> bool" where
  "quota_ok P st =
     (case st_file st of None \<Rightarrow> True
      | Some f \<Rightarrow> storageUsed P + int (f_size f) \<le> storageLimit P)"


definition lib_alice :: library where
  "lib_alice = library_init\<lparr>st_user := Some alice\<rparr>"

definition be_shared :: backend where
  "be_shared = be0\<lparr>books := [bobs_book, alices_book],
             objects := [object_of bobs_book, object_of alices_book]\<rparr>"

definition st_novel :: dialog where
  "st_novel = dialog_init\<lparr>st_title := ''Novel'', st_author := ''Ann Author'',
                          st_file := Some novel\<rparr>"

definition big_book :: book where
  "big_book =
     \<lparr>book_id = ''dddddddd-dddd-4ddd-8ddd-dddddddddddd'', user_id = alice, title = ''Archive'',
      author = None, file_path = alice @ ''/1690000000002.pdf'', file_size = 199229440,
      file_type = Some ''application/pdf'', cover_url = None, uploaded_at = Some 1690000000999\<rparr>"

definition be_full :: backend where
  "be_full = be0\<lparr>books := [big_book], objects := [object_of big_book]\<rparr>"

definition carol :: uuid where
  "carol = ''33333333-3333-4333-8333-333333333333''"

definition new_carol :: auth_user where
  "new_carol = \<lparr>auth_id = carol, auth_email = Some ''carol@example.org'',
                raw_user_meta_data = [(''full_name'', ''Carol Reader'')]\<rparr>"

definition be_clash :: backend where
  "be_clash = be0\<lparr>user_roles :=
      [\<lparr>role_id = ''eeeeeeee-eeee-4eee-8eee-eeeeeeeeeeee'', role_user_id = bob, role = user\<rparr>]\<rparr>"

text \<open>Two rows whose sizes are the largest \<open>bigint\<close>.\<close>

definition huge_a :: book where
  "huge_a =
     \<lparr>book_id = ''99999999-9999-4999-8999-999999999991'', user_id = alice, title = ''A'',
      author = None, file_path = alice @ ''/1690000000003.pdf'',
      file_size = 9223372036854775807, file_type = None, cover_url = None,
      uploaded_at = Some 1690000001000\<rparr>"

definition huge_b :: book where
  "huge_b =
     \<lparr>book_id = ''99999999-9999-4999-8999-999999999992'', user_id = alice, title = ''B'',
      author = None, file_path = alice @ ''/1690000000004.pdf'',
      file_size = 9223372036854775807, file_type = None, cover_url = None,
      uploaded_at = Some 1690000002000\<rparr>"

text \<open>A page whose list still shows the cards of the previous user of the browser.\<close>

definition lib_stale :: library where
  "lib_stale = lib_alice\<lparr>st_books := [bobs_book]\<rparr>"

section \<open>Strings and paths\<close>

lemma split_not_Nil: "split c s \<noteq> []"
  by (induction s) (auto split: list.splits)

lemma split_prefix:
  "c \<notin> set u \<Longrightarrow> split c (u @ c # rest) = u # split c rest"
  by (induction u) (auto split: list.splits)

lemma pop_split: "show_opt (pop (split c s)) = last (split c s)"
proof -
  obtain x xs where "rev (split c s) = x # xs"
    using split_not_Nil [of c s] by (cases "rev (split c s)") auto
  moreover from this have "last (split c s) = x"
    by (metis last_rev list.sel(1) rev_is_Nil_conv rev_rev_ident hd_rev)
  ultimately show ?thesis by (simp add: pop_def show_opt_def)
qed

lemma subscript1_foldername_prefix:
  assumes "CHR ''/'' \<notin> set u"
  shows "subscript1 (foldername (u @ ''/'' @ rest)) = Some u"
proof -
  have "string_to_array (u @ ''/'' @ rest) = u # split CHR ''/'' rest"
    using assms by (simp add: string_to_array_def split_prefix)
  moreover have "butlast (u # split CHR ''/'' rest) = u # butlast (split CHR ''/'' rest)"
    by (simp add: split_not_Nil)
  ultimately show ?thesis
    by (simp add: foldername_def subscript1_def)
qed

lemma fileName_namespaced:
  "CHR ''/'' \<notin> set uid \<Longrightarrow> subscript1 (foldername (fileName uid now f)) = Some uid"
  unfolding fileName_def by (rule subscript1_foldername_prefix)

lemma is_uuid_no_slash: "is_uuid s \<Longrightarrow> CHR ''/'' \<notin> set s"
proof
  assume u: "is_uuid s" and "CHR ''/'' \<in> set s"
  then obtain i where i: "i < length s" "s ! i = CHR ''/''"
    by (auto simp: in_set_conv_nth)
  from u have len: "length s = 36"
    and all: "\<forall>i \<in> set [0 ..< 36].
                (if i \<in> set [8, 13, 18, 23] then s ! i = CHR ''-'' else is_hex (s ! i))"
    by (simp_all add: is_uuid_def list_all_iff)
  from i len have "i \<in> set [0 ..< 36]" by simp
  with all have "if i \<in> set [8, 13, 18, 23] then s ! i = CHR ''-'' else is_hex (s ! i)"
    by blast
  with i show False
    by (auto simp: is_hex_def split: if_splits)
qed

lemma is_uuid_alice: "is_uuid alice"
  by code_simp

lemma is_uuid_bob: "is_uuid bob"
  by code_simp

lemma no_slash_alice: "CHR ''/'' \<notin> set alice"
  by (rule is_uuid_no_slash [OF is_uuid_alice])

lemma alice_neq_bob: "alice \<noteq> bob"
  by (simp add: alice_def bob_def)

lemma show_nat_now: "show_nat 1700000000000 = ''1700000000000''"
  by (simp add: digit_char_def)

section \<open>The platform's operations\<close>

lemma coalesce_sql_sum: "coalesce (sql_sum xs) 0 = sum_list xs"
  by (induction xs) (auto simp: coalesce_def split: option.splits)

lemma select_books_owner:
  "select_books a fault cond tbl = Inr rows \<Longrightarrow> r \<in> set rows \<Longrightarrow> user_id r = a"
  by (auto simp: select_books_def books_select_policy_def split: if_splits)

lemma mset_order_by_uploaded_at_desc: "mset (order_by_uploaded_at_desc rows) = mset rows"
proof -
  have "mset (order_by_uploaded_at_desc rows) =
          filter_mset (\<lambda>r. uploaded_at r = None) (mset rows) +
          filter_mset (\<lambda>r. uploaded_at r \<noteq> None) (mset rows)"
    by (simp add: order_by_uploaded_at_desc_def)
  then show ?thesis by simp
qed

lemma delete_books_Inr:
  "delete_books uid fault cond tbl0 = Inr tbl \<Longrightarrow>
     tbl = filter (\<lambda>r. \<not> (user_id r = uid \<and> cond r)) tbl0"
  by (auto simp: delete_books_def books_select_policy_def books_delete_policy_def
      split: if_splits intro: filter_cong)

lemma insert_books_Inr:
  "insert_books uid fault r be = Inr tbl \<Longrightarrow>
     tbl = books be @ [r] \<and> user_id r = uid \<and> book_id r \<notin> set (map book_id (books be))"
  by (simp add: insert_books_def books_insert_policy_def split: if_splits)

lemma storage_upload_Inr:
  "storage_upload uid fault path f objs = Inr objs' \<Longrightarrow>
     objs' = objs @ [\<lparr>bucket_id = ''books'', name = path, object_size = f_size f,
                      content_type = f_type f\<rparr>]"
  by (simp add: storage_upload_def Let_def split: if_splits)

lemma storage_upload_ok:
  assumes "CHR ''/'' \<notin> set uid" and "f_size f \<le> file_size_limit"
    and "\<not> list_ex (\<lambda>ob. bucket_id ob = ''books'' \<and> name ob = fileName uid now f) objs"
  shows "storage_upload uid False (fileName uid now f) f objs =
           Inr (objs @ [\<lparr>bucket_id = ''books'', name = fileName uid now f,
                          object_size = f_size f, content_type = f_type f\<rparr>])"
  using assms fileName_namespaced [OF assms(1), of now f]
  by (simp add: storage_upload_def objects_insert_policy_def Let_def)

lemma storage_download_owner:
  "storage_download a fault path objs = Inr ob \<Longrightarrow>
     name ob = path \<and> ob \<in> set objs \<and> subscript1 (foldername (name ob)) = Some a"
  by (auto simp: storage_download_def objects_select_policy_def find_Some_iff
      split: if_splits option.splits)

lemma isl_storage_download:
  "isl (storage_download a False p objs) \<Longrightarrow> storage_download a False p objs = Inl Not_found"
  by (simp add: storage_download_def split: option.splits)

lemma insert_profiles_Inr:
  "insert_profiles p be = Inr be' \<Longrightarrow>
     be' = be\<lparr>profiles := profiles be @ [p]\<rparr> \<and>
     (\<forall>q \<in> set (profiles be). profile_id q \<noteq> profile_id p)"
  by (simp add: insert_profiles_def split: if_splits) (metis image_eqI)

lemma insert_user_roles_Inr:
  "insert_user_roles r be = Inr be' \<Longrightarrow>
     be' = be\<lparr>user_roles := user_roles be @ [r]\<rparr> \<and>
     (\<forall>q \<in> set (user_roles be). \<not> (role_user_id q = role_user_id r \<and> role q = role r))"
  by (simp add: insert_user_roles_def list_ex_iff split: if_splits)

lemma insert_profiles_books: "insert_profiles p be = Inr be' \<Longrightarrow> books be' = books be"
  by (auto simp: insert_profiles_def split: if_splits)

lemma insert_user_roles_books: "insert_user_roles r be = Inr be' \<Longrightarrow> books be' = books be"
  by (auto simp: insert_user_roles_def split: if_splits)

lemma filter_append_single:
  "\<forall>x \<in> set xs. \<not> P x \<Longrightarrow> P y \<Longrightarrow> filter P (xs @ [y]) = [y]"
  by (simp add: filter_empty_conv)

section \<open>The handlers of the client\<close>

lemma handleFileChange_quota_ok:
  "quota_ok P st \<Longrightarrow> quota_ok P (fst (handleFileChange P st files))"
  by (auto simp: handleFileChange_def quota_ok_def split: option.splits list.splits)

lemma handleFileChange_silent:
  "Storage_upload path g \<notin> set (snd (handleFileChange P st files))"
  by (auto simp: handleFileChange_def split: option.splits list.splits)

lemma handleUpload_no_file:
  "st_file st = None \<Longrightarrow> handleUpload ev st be = (st, be, [Toast_error ''Please select a file''])"
  by (simp add: handleUpload_def)

lemma handleUpload_insert_failed:
  assumes "st_file st = Some f" and "session_user ev = Some uid"
    and "storage_upload uid (upload_fault ev) (fileName uid (date_now ev) f) f (objects be) = Inr objs"
    and "insert_books uid (insert_fault ev) (new_book ev uid st f) (be\<lparr>objects := objs\<rparr>) = Inl e"
  shows "handleUpload ev st be =
           (st\<lparr>st_uploading := False\<rparr>,
            (case storage_remove uid (remove_fault ev) [fileName uid (date_now ev) f] objs of
               Inl e \<Rightarrow> be\<lparr>objects := objs\<rparr>
             | Inr objs' \<Rightarrow> be\<lparr>objects := objs'\<rparr>),
            [Auth_getUser, Storage_upload (fileName uid (date_now ev) f) f,
             Books_insert (new_book ev uid st f),
             Storage_remove [fileName uid (date_now ev) f],
             Toast_error ''Failed to save book information''])"
  using assms by (simp add: handleUpload_def Let_def split: sum.splits)

lemma handleUpload_success:
  assumes "st_file st = Some f" and "session_user ev = Some uid"
    and "storage_upload uid (upload_fault ev) (fileName uid (date_now ev) f) f (objects be) = Inr objs"
    and "insert_books uid (insert_fault ev) (new_book ev uid st f) (be\<lparr>objects := objs\<rparr>) = Inr tbl"
  shows "handleUpload ev st be =
           (\<lparr>st_title = [], st_author = [], st_file = None, st_uploading = False\<rparr>,
            be\<lparr>objects := objs, books := tbl\<rparr>,
            [Auth_getUser, Storage_upload (fileName uid (date_now ev) f) f,
             Books_insert (new_book ev uid st f),
             Toast_success ''Book uploaded successfully!'', OnBookUploaded])"
  using assms by (simp add: handleUpload_def Let_def)

lemma handleUpload_requests:
  "Storage_upload path g \<in> set (snd (snd (handleUpload ev st be))) \<Longrightarrow> st_file st = Some g"
  by (auto simp: handleUpload_def Let_def split: option.splits sum.splits)

lemma handleUpload_sends:
  "st_file st = Some f \<Longrightarrow> session_user ev = Some uid \<Longrightarrow>
     Storage_upload (fileName uid (date_now ev) f) f \<in> set (snd (snd (handleUpload ev st be)))"
  by (simp add: handleUpload_def Let_def split: sum.splits)

lemma handleUpload_file_after:
  "st_file (fst (handleUpload ev st be)) = None \<or> st_file (fst (handleUpload ev st be)) = st_file st"
  by (simp add: handleUpload_def Let_def split: option.splits sum.splits)

lemma handleUpload_quota_ok:
  "quota_ok P st \<Longrightarrow> quota_ok P (fst (handleUpload ev st be))"
  using handleUpload_file_after [of ev st be]
  by (auto simp: quota_ok_def)

lemma handleUpload_books:
  "books (fst (snd (handleUpload ev st be))) = books be \<or>
   (\<exists>uid f. session_user ev = Some uid \<and> st_file st = Some f \<and>
      books (fst (snd (handleUpload ev st be))) = books be @ [new_book ev uid st f])"
  by (auto simp: handleUpload_def Let_def dest: insert_books_Inr
      split: option.splits sum.splits)

lemma handleUpload_inserts:
  "Books_insert r \<in> set (snd (snd (handleUpload ev st be))) \<Longrightarrow>
     \<exists>uid f. session_user ev = Some uid \<and> st_file st = Some f \<and> r = new_book ev uid st f"
  by (auto simp: handleUpload_def Let_def split: option.splits sum.splits)

lemma handleUpload_reports_success:
  assumes "Toast_success m \<in> set (snd (snd (handleUpload ev st be)))"
  shows "\<exists>f uid objs tbl. st_file st = Some f \<and> session_user ev = Some uid \<and>
           storage_upload uid (upload_fault ev) (fileName uid (date_now ev) f) f (objects be) = Inr objs \<and>
           insert_books uid (insert_fault ev) (new_book ev uid st f) (be\<lparr>objects := objs\<rparr>) = Inr tbl"
  using assms by (auto simp: handleUpload_def Let_def split: option.splits sum.splits)

lemma upload_novel_ok:
  "handleUpload env0 st_novel be0 =
     (\<lparr>st_title = [], st_author = [], st_file = None, st_uploading = False\<rparr>,
      be0\<lparr>objects := [\<lparr>bucket_id = ''books'', name = fileName alice 1700000000000 novel,
                         object_size = f_size novel, content_type = f_type novel\<rparr>],
          books := [new_book env0 alice st_novel novel]\<rparr>,
      [Auth_getUser, Storage_upload (fileName alice 1700000000000 novel) novel,
       Books_insert (new_book env0 alice st_novel novel),
       Toast_success ''Book uploaded successfully!'', OnBookUploaded])"
proof -
  let ?ob = "\<lparr>bucket_id = ''books'', name = fileName alice 1700000000000 novel,
              object_size = f_size novel, content_type = f_type novel\<rparr>"
  have f: "st_file st_novel = Some novel" by (simp add: st_novel_def)
  have u: "session_user env0 = Some alice" by (simp add: env0_def)
  have "storage_upload alice False (fileName alice 1700000000000 novel) novel [] = Inr ([] @ [?ob])"
    by (rule storage_upload_ok [OF no_slash_alice]) (simp_all add: novel_def file_size_limit_def)
  then have up: "storage_upload alice (upload_fault env0) (fileName alice (date_now env0) novel)
                   novel (objects be0) = Inr [?ob]"
    by (simp add: env0_def be0_def)
  have ins: "insert_books alice (insert_fault env0) (new_book env0 alice st_novel novel)
               (be0\<lparr>objects := [?ob]\<rparr>) = Inr [new_book env0 alice st_novel novel]"
    by (simp add: insert_books_def books_insert_policy_def new_book_def env0_def be0_def
        bigint_ok_def novel_def)
  from handleUpload_success [OF f u up ins] show ?thesis
    by (simp add: env0_def)
qed

lemma handleDownload_refused:
  assumes "isl (storage_download a (download_fault ev) (file_path r) (objects be))"
    and "session_user ev = Some a"
  shows "handleDownload ev be r =
           [Storage_download (file_path r), Toast_error ''Failed to download book'']"
proof (cases "storage_download a (download_fault ev) (file_path r) (objects be)")
  case (Inl e)
  with assms(2) show ?thesis by (simp add: handleDownload_def)
next
  case (Inr ob)
  with assms(1) show ?thesis by simp
qed

lemma fetchBooks_actions:
  "x \<in> set (snd (fetchBooks ev lib be)) \<Longrightarrow>
     (\<exists>u. x = Books_select u) \<or> x = Toast_error ''Failed to load books''"
  by (auto simp: fetchBooks_def split: option.splits sum.splits)

lemma fetchBooks_ok:
  "st_user lib = Some uid \<Longrightarrow> \<not> select_fault ev \<Longrightarrow>
     st_books (fst (fetchBooks ev lib be)) =
       order_by_uploaded_at_desc (filter (\<lambda>r. user_id r = uid) (books be))"
  by (simp add: fetchBooks_def select_books_def books_select_policy_def eq_commute [of uid])

lemma fetchStorageUsed_actions:
  "x \<in> set (snd (fetchStorageUsed ev lib be)) \<Longrightarrow> (\<exists>u. x = Rpc_get_user_storage_used u)"
  by (auto simp: fetchStorageUsed_def split: option.splits sum.splits)

lemma handleDeleteBook_failed:
  assumes "st_user lib = Some uid"
    and "delete_books uid (delete_fault ev) (\<lambda>r. book_id r = book_id b) (books be) = Inl e"
  shows "handleDeleteBook ev lib be b =
           (lib, be, [Books_delete (book_id b), Toast_error ''Failed to delete book''])"
  using assms by (simp add: handleDeleteBook_def)

lemma handleDeleteBook_deleted:
  assumes "st_user lib = Some uid"
    and "delete_books uid (delete_fault ev) (\<lambda>r. book_id r = book_id b) (books be) = Inr tbl"
  shows "handleDeleteBook ev lib be b =
     (let rm = storage_remove uid (remove_fault ev) [file_path b] (objects be);
          be2 = (case rm of Inl e \<Rightarrow> be\<lparr>books := tbl\<rparr>
                 | Inr objs \<Rightarrow> be\<lparr>books := tbl, objects := objs\<rparr>)
      in (fst (fetchStorageUsed ev (fst (fetchBooks ev lib be2)) be2), be2,
          [Books_delete (book_id b), Storage_remove [file_path b]] @
          (case rm of Inl e \<Rightarrow> [Console_error ''Storage deletion error:''] | Inr objs \<Rightarrow> []) @
          [Toast_success ''Book deleted successfully''] @
          snd (fetchBooks ev lib be2) @
          snd (fetchStorageUsed ev (fst (fetchBooks ev lib be2)) be2)))"
  using assms
  by (simp add: handleDeleteBook_def Let_def split_beta split: sum.splits)

lemma handleDeleteBook_books:
  "set (books (fst (snd (handleDeleteBook ev lib be b)))) \<subseteq> set (books be)"
  by (auto simp: handleDeleteBook_def Let_def split_beta delete_books_def
      split: option.splits sum.splits if_splits)

section \<open>The storage-used aggregate\<close>

text \<open>
  Claim C6, as amended. For every user id and every state of the books table in which the
  sum of \<open>file_size\<close> over the rows of that user is in the range of \<open>bigint\<close>,
  \<open>get_user_storage_used\<close> returns exactly that sum; in every other state it returns
  nothing and raises \<open>numeric_value_out_of_range\<close>.
\<close>

theorem C6_storage_used_is_sum_in_range:
  "get_user_storage_used u tbl =
     (if bigint_ok (\<Sum>r\<leftarrow>filter (\<lambda>r. user_id r = u) tbl. file_size r)
      then Inr (\<Sum>r\<leftarrow>filter (\<lambda>r. user_id r = u) tbl. file_size r)
      else Inl Numeric_value_out_of_range)"
  by (simp add: get_user_storage_used_def coalesce_sql_sum to_bigint_def)

theorem C6_storage_used_is_sum_in_range_witness:
  "bigint_ok (sum_list (map file_size [alices_book, big_book])) \<and>
   get_user_storage_used alice [alices_book, bobs_book, big_book] = Inr 199231440"
proof -
  have rows: "filter (\<lambda>r. user_id r = alice) [alices_book, bobs_book, big_book] =
                [alices_book, big_book]"
    using alice_neq_bob by (simp add: alices_book_def bobs_book_def big_book_def)
  have total: "sum_list (map file_size [alices_book, big_book]) = 199231440"
    by (simp add: alices_book_def big_book_def)
  have ok: "bigint_ok (sum_list (map file_size [alices_book, big_book]))"
    unfolding total by (simp add: bigint_ok_def)
  from C6_storage_used_is_sum_in_range [of alice "[alices_book, bobs_book, big_book]"] ok
  have "get_user_storage_used alice [alices_book, bobs_book, big_book] =
          Inr (sum_list (map file_size [alices_book, big_book]))"
    by (simp only: rows if_True)
  with ok total show ?thesis by simp
qed

text \<open>
  Two rows of one user, each with a \<open>file_size\<close> that the column accepts (an insert with
  the user's own id puts them into the table), have a sum beyond the range: the function
  raises the error and returns no sum.
\<close>

theorem C6_overflow_counterexample:
  "insert_books alice False huge_a be0 = Inr [huge_a] \<and>
   insert_books alice False huge_b (be0\<lparr>books := [huge_a]\<rparr>) = Inr [huge_a, huge_b] \<and>
   user_id huge_a = alice \<and> user_id huge_b = alice \<and>
   sum_list (map file_size [huge_a, huge_b]) = 18446744073709551614 \<and>
   get_user_storage_used alice [huge_a, huge_b] = Inl Numeric_value_out_of_range"
  by (simp add: insert_books_def books_insert_policy_def bigint_ok_def be0_def huge_a_def
      huge_b_def get_user_storage_used_def coalesce_def to_bigint_def alice_def bob_def)

text \<open>
  Claim C10. For a user with no book rows the aggregate is 0: the sum over no rows is
  NULL, and \<open>coalesce\<close> turns it into 0.
\<close>

theorem C10_storage_used_no_rows:
  "\<forall>r \<in> set tbl. user_id r \<noteq> u \<Longrightarrow>
     sql_sum (map file_size (filter (\<lambda>r. user_id r = u) tbl)) = None \<and>
     get_user_storage_used u tbl = Inr 0"
proof -
  assume "\<forall>r \<in> set tbl. user_id r \<noteq> u"
  then have "filter (\<lambda>r. user_id r = u) tbl = []"
    by (simp add: filter_empty_conv)
  then show ?thesis
    by (simp add: get_user_storage_used_def coalesce_def to_bigint_def bigint_ok_def)
qed

theorem C10_storage_used_no_rows_witness:
  "user_id bobs_book \<noteq> alice \<and>
   sql_sum (map file_size (filter (\<lambda>r. user_id r = alice) [bobs_book])) = None \<and>
   get_user_storage_used alice [bobs_book] = Inr 0"
  using C10_storage_used_no_rows [of "[bobs_book]" alice]
  by (simp add: bobs_book_def alice_def bob_def)

section \<open>Isolation of users\<close>

lemma path_namespaced_bobs_book: "path_namespaced bobs_book"
  using subscript1_foldername_prefix [OF is_uuid_no_slash [OF is_uuid_bob], of "''1690000000000.pdf''"]
  by (simp add: path_namespaced_def bobs_book_def)

text \<open>
  Claim C2. For distinct users \<open>a\<close> and \<open>b\<close>: every row that a select on \<open>books\<close> made by
  \<open>a\<close> returns, whatever its condition, is owned by \<open>a\<close> and so is not a row of \<open>b\<close>, and
  so is every row of the list that \<open>fetchBooks\<close> loads for \<open>a\<close>; every object that a
  download made by \<open>a\<close> returns has \<open>a\<close> as the first segment of its path and so is not
  in the folder of \<open>b\<close>; and the download by \<open>a\<close> of the file of a book row of \<open>b\<close> whose
  path is in the folder of \<open>b\<close> fails, in \<open>handleDownload\<close> too, which then saves nothing.
\<close>

theorem C2_no_cross_user_read:
  assumes "a \<noteq> b"
  shows "(\<forall>rows. select_books a fault cond tbl = Inr rows \<longrightarrow>
            (\<forall>r \<in> set rows. user_id r = a \<and> user_id r \<noteq> b)) \<and>
         (st_user lib = Some a \<and> \<not> select_fault ev \<longrightarrow>
            (\<forall>r \<in> set (st_books (fst (fetchBooks ev lib be))). user_id r = a \<and> user_id r \<noteq> b)) \<and>
         (\<forall>ob. storage_download a fault path objs = Inr ob \<longrightarrow>
            subscript1 (foldername (name ob)) = Some a \<and>
            subscript1 (foldername (name ob)) \<noteq> Some b) \<and>
         (\<forall>r. user_id r = b \<and> path_namespaced r \<longrightarrow>
            isl (storage_download a fault (file_path r) objs) \<and>
            (session_user ev = Some a \<longrightarrow>
               handleDownload ev be r =
                 [Storage_download (file_path r), Toast_error ''Failed to download book'']))"
proof (intro conjI allI impI ballI)
  fix rows r
  assume "select_books a fault cond tbl = Inr rows" "r \<in> set rows"
  then show "user_id r = a" by (rule select_books_owner)
  with assms show "user_id r \<noteq> b" by simp
next
  fix r
  assume l: "st_user lib = Some a \<and> \<not> select_fault ev"
    and r: "r \<in> set (st_books (fst (fetchBooks ev lib be)))"
  from l have "st_books (fst (fetchBooks ev lib be)) =
                 order_by_uploaded_at_desc (filter (\<lambda>r. user_id r = a) (books be))"
    by (simp add: fetchBooks_ok)
  with r have "r \<in># mset (order_by_uploaded_at_desc (filter (\<lambda>r. user_id r = a) (books be)))"
    by simp
  then have "r \<in> set (filter (\<lambda>r. user_id r = a) (books be))"
    by (simp add: mset_order_by_uploaded_at_desc)
  then show "user_id r = a" by simp
  with assms show "user_id r \<noteq> b" by simp
next
  fix ob
  assume d: "storage_download a fault path objs = Inr ob"
  from storage_download_owner [OF d]
  show "subscript1 (foldername (name ob)) = Some a" by blast
  with assms show "subscript1 (foldername (name ob)) \<noteq> Some b" by simp
next
  fix r
  assume r: "user_id r = b \<and> path_namespaced r"
  have refused: "isl (storage_download a flt (file_path r) os)" for flt os
  proof (cases "storage_download a flt (file_path r) os")
    case (Inl e)
    then show ?thesis by simp
  next
    case (Inr ob)
    from storage_download_owner [OF Inr]
    have "name ob = file_path r" "subscript1 (foldername (name ob)) = Some a"
      by blast+
    with r assms show ?thesis by (simp add: path_namespaced_def)
  qed
  show "isl (storage_download a fault (file_path r) objs)" by (rule refused)
  show "handleDownload ev be r =
          [Storage_download (file_path r), Toast_error ''Failed to download book'']"
    if "session_user ev = Some a"
    using refused that by (rule handleDownload_refused)
qed

theorem C2_no_cross_user_read_witness:
  "alice \<noteq> bob \<and>
   select_books alice False (\<lambda>r. True) [bobs_book, alices_book] = Inr [alices_book] \<and>
   st_user lib_alice = Some alice \<and> \<not> select_fault env0 \<and>
   st_books (fst (fetchBooks env0 lib_alice be_shared)) = [alices_book] \<and>
   user_id bobs_book = bob \<and> path_namespaced bobs_book \<and>
   storage_download alice False (file_path bobs_book) (objects be_shared) = Inl Not_found \<and>
   storage_download bob False (file_path bobs_book) (objects be_shared) = Inr (object_of bobs_book) \<and>
   session_user env0 = Some alice \<and>
   handleDownload env0 be_shared bobs_book =
     [Storage_download (file_path bobs_book), Toast_error ''Failed to download book'']"
proof -
  note c = C2_no_cross_user_read [OF alice_neq_bob, of False "\<lambda>r. True"
      "[bobs_book, alices_book]" lib_alice env0 be_shared "file_path bobs_book"
      "objects be_shared"]
  have sel: "select_books alice False (\<lambda>r. True) [bobs_book, alices_book] = Inr [alices_book]"
    using alice_neq_bob
    by (simp add: select_books_def books_select_policy_def bobs_book_def alices_book_def)
  have own: "user_id bobs_book = bob" by (simp add: bobs_book_def)
  have u: "st_user lib_alice = Some alice" by (simp add: lib_alice_def)
  have s: "session_user env0 = Some alice" by (simp add: env0_def)
  have nf: "\<not> select_fault env0" by (simp add: env0_def)
  have listed: "st_books (fst (fetchBooks env0 lib_alice be_shared)) = [alices_book]"
    using alice_neq_bob
    by (simp add: fetchBooks_ok [OF u nf] be_shared_def order_by_uploaded_at_desc_def
        bobs_book_def alices_book_def)
  from c own path_namespaced_bobs_book
  have "isl (storage_download alice False (file_path bobs_book) (objects be_shared))"
    by blast
  then have dl: "storage_download alice False (file_path bobs_book) (objects be_shared)
                   = Inl Not_found"
    by (rule isl_storage_download)
  from c own path_namespaced_bobs_book s
  have hd: "handleDownload env0 be_shared bobs_book =
     [Storage_download (file_path bobs_book), Toast_error ''Failed to download book'']"
    by blast
  have pol: "objects_select_policy bob (object_of bobs_book)"
    using path_namespaced_bobs_book
    by (simp add: objects_select_policy_def object_of_def path_namespaced_def bobs_book_def)
  have dl2: "storage_download bob False (file_path bobs_book) (objects be_shared)
               = Inr (object_of bobs_book)"
    using pol by (simp add: storage_download_def object_of_def be_shared_def)
  from alice_neq_bob sel u nf listed own path_namespaced_bobs_book dl dl2 s hd show ?thesis
    by blast
qed

section \<open>Signup\<close>

lemma create_identity_Inr:
  assumes "create_identity ts rid new be = (Inr (), be')"
  shows "be' = be\<lparr>auth_users := auth_users be @ [new],
                   profiles := profiles be @
                     [\<lparr>profile_id = auth_id new, email = auth_email new,
                       full_name = map_of (raw_user_meta_data new) ''full_name'',
                       created_at = Some ts\<rparr>],
                   user_roles := user_roles be @
                     [\<lparr>role_id = rid, role_user_id = auth_id new, role = user\<rparr>]\<rparr>"
    and "\<forall>u \<in> set (auth_users be). auth_id u \<noteq> auth_id new"
    and "\<forall>q \<in> set (profiles be). profile_id q \<noteq> auth_id new"
    and "\<forall>q \<in> set (user_roles be). \<not> (role_user_id q = auth_id new \<and> role q = user)"
proof -
  let ?be0 = "be\<lparr>auth_users := auth_users be @ [new]\<rparr>"
  let ?p = "\<lparr>profile_id = auth_id new, email = auth_email new,
            full_name = map_of (raw_user_meta_data new) ''full_name'', created_at = Some ts\<rparr>"
  let ?r = "\<lparr>role_id = rid, role_user_id = auth_id new, role = user\<rparr>"
  from assms have fresh: "auth_id new \<notin> set (map auth_id (auth_users be))"
    and h: "handle_new_user ts rid new ?be0 = Inr be'"
    by (auto simp: create_identity_def split: if_splits sum.splits)
  from h obtain bep where p: "insert_profiles ?p ?be0 = Inr bep"
    and r: "insert_user_roles ?r bep = Inr be'"
    by (auto simp: handle_new_user_def split: sum.splits)
  from insert_profiles_Inr [OF p] have bep: "bep = ?be0\<lparr>profiles := profiles ?be0 @ [?p]\<rparr>"
    and np: "\<forall>q \<in> set (profiles ?be0). profile_id q \<noteq> profile_id ?p"
    by blast+
  from insert_user_roles_Inr [OF r] have be': "be' = bep\<lparr>user_roles := user_roles bep @ [?r]\<rparr>"
    and nr: "\<forall>q \<in> set (user_roles bep). \<not> (role_user_id q = role_user_id ?r \<and> role q = role ?r)"
    by blast+
  from be' bep show "be' = be\<lparr>auth_users := auth_users be @ [new],
                   profiles := profiles be @ [?p], user_roles := user_roles be @ [?r]\<rparr>"
    by simp
  from fresh show "\<forall>u \<in> set (auth_users be). auth_id u \<noteq> auth_id new" by (metis image_eqI list.set_map)
  from np show "\<forall>q \<in> set (profiles be). profile_id q \<noteq> auth_id new" by simp
  from nr bep show "\<forall>q \<in> set (user_roles be). \<not> (role_user_id q = auth_id new \<and> role q = user)"
    by simp
qed

lemma create_identity_Inl:
  "create_identity ts rid new be = (Inl e, be') \<Longrightarrow> be' = be"
  by (auto simp: create_identity_def split: if_splits sum.splits)

lemma create_identity_trigger_failed:
  assumes "handle_new_user ts rid new (be\<lparr>auth_users := auth_users be @ [new]\<rparr>) = Inl e"
  shows "\<exists>e'. create_identity ts rid new be = (Inl e', be)"
  using assms by (simp add: create_identity_def)

lemma create_identity_books: "books (snd (create_identity ts rid new be)) = books be"
  by (auto simp: create_identity_def handle_new_user_def
      dest!: insert_profiles_books insert_user_roles_books split: sum.splits)

text \<open>
  Claim C7. After a successful creation of an identity there is exactly one profile row
  for it, with its id, its email and the full name of its metadata, exactly one role row
  with role \<open>user\<close> for it, and exactly one identity with its id; if no role row
  referred to a missing identity before (the foreign key of \<open>user_roles\<close>), that role row
  is the only role row of the identity. A failed creation leaves the state as it was,
  and a failure of the trigger function makes the creation fail: no identity, no profile
  and no role row is added.
\<close>

theorem C7_signup_bootstrap:
  "(create_identity ts rid new be = (Inr (), be') \<longrightarrow>
      filter (\<lambda>p. profile_id p = auth_id new) (profiles be') =
        [\<lparr>profile_id = auth_id new, email = auth_email new,
          full_name = map_of (raw_user_meta_data new) ''full_name'', created_at = Some ts\<rparr>] \<and>
      filter (\<lambda>r. role_user_id r = auth_id new \<and> role r = user) (user_roles be') =
        [\<lparr>role_id = rid, role_user_id = auth_id new, role = user\<rparr>] \<and>
      filter (\<lambda>u. auth_id u = auth_id new) (auth_users be') = [new] \<and>
      ((\<forall>q \<in> set (user_roles be). role_user_id q \<in> set (map auth_id (auth_users be))) \<longrightarrow>
         filter (\<lambda>r. role_user_id r = auth_id new) (user_roles be') =
           [\<lparr>role_id = rid, role_user_id = auth_id new, role = user\<rparr>])) \<and>
   (\<forall>e. create_identity ts rid new be = (Inl e, be') \<longrightarrow> be' = be) \<and>
   (\<forall>e. handle_new_user ts rid new (be\<lparr>auth_users := auth_users be @ [new]\<rparr>) = Inl e \<longrightarrow>
      (\<exists>e'. create_identity ts rid new be = (Inl e', be)))"
proof (intro conjI impI allI)
  assume ok: "create_identity ts rid new be = (Inr (), be')"
  note facts = create_identity_Inr [OF ok]
  show "filter (\<lambda>p. profile_id p = auth_id new) (profiles be') =
        [\<lparr>profile_id = auth_id new, email = auth_email new,
          full_name = map_of (raw_user_meta_data new) ''full_name'', created_at = Some ts\<rparr>]"
    using facts(3) by (simp add: facts(1) filter_append_single)
  show "filter (\<lambda>r. role_user_id r = auth_id new \<and> role r = user) (user_roles be') =
        [\<lparr>role_id = rid, role_user_id = auth_id new, role = user\<rparr>]"
    using facts(4) by (simp add: facts(1) filter_append_single)
  show "filter (\<lambda>u. auth_id u = auth_id new) (auth_users be') = [new]"
    using facts(2) by (simp add: facts(1) filter_append_single)
  show "filter (\<lambda>r. role_user_id r = auth_id new) (user_roles be') =
           [\<lparr>role_id = rid, role_user_id = auth_id new, role = user\<rparr>]"
    if fk: "\<forall>q \<in> set (user_roles be). role_user_id q \<in> set (map auth_id (auth_users be))"
  proof -
    from fk facts(2) have "\<forall>q \<in> set (user_roles be). role_user_id q \<noteq> auth_id new"
      by auto
    then show ?thesis by (simp add: facts(1) filter_append_single)
  qed
next
  fix e
  assume "create_identity ts rid new be = (Inl e, be')"
  then show "be' = be" by (rule create_identity_Inl)
next
  fix e
  assume "handle_new_user ts rid new (be\<lparr>auth_users := auth_users be @ [new]\<rparr>) = Inl e"
  then show "\<exists>e'. create_identity ts rid new be = (Inl e', be)"
    by (rule create_identity_trigger_failed)
qed

lemma signup_carol:
  "create_identity 1700000000123 ''ffffffff-ffff-4fff-8fff-ffffffffffff'' new_carol be0 =
     (Inr (),
      be0\<lparr>auth_users := auth_users be0 @ [new_carol],
          profiles := [\<lparr>profile_id = carol, email = Some ''carol@example.org'',
                        full_name = Some ''Carol Reader'', created_at = Some 1700000000123\<rparr>],
          user_roles := [\<lparr>role_id = ''ffffffff-ffff-4fff-8fff-ffffffffffff'',
                          role_user_id = carol, role = user\<rparr>]\<rparr>)"
  by (simp add: create_identity_def handle_new_user_def insert_profiles_def
      insert_user_roles_def be0_def new_carol_def carol_def alice_def bob_def)

lemma trigger_fails_on_clash:
  "handle_new_user 1700000000123 ''eeeeeeee-eeee-4eee-8eee-eeeeeeeeeeee'' new_carol
     (be_clash\<lparr>auth_users := auth_users be_clash @ [new_carol]\<rparr>) = Inl Unique_violation"
  by (simp add: handle_new_user_def insert_profiles_def insert_user_roles_def be_clash_def
      be0_def new_carol_def carol_def alice_def bob_def)

theorem C7_signup_bootstrap_witness:
  "fst (create_identity 1700000000123 ''ffffffff-ffff-4fff-8fff-ffffffffffff'' new_carol be0)
     = Inr () \<and>
   filter (\<lambda>p. profile_id p = carol)
     (profiles (snd (create_identity 1700000000123 ''ffffffff-ffff-4fff-8fff-ffffffffffff''
                       new_carol be0))) =
     [\<lparr>profile_id = carol, email = Some ''carol@example.org'',
       full_name = Some ''Carol Reader'', created_at = Some 1700000000123\<rparr>] \<and>
   filter (\<lambda>r. role_user_id r = carol \<and> role r = user)
     (user_roles (snd (create_identity 1700000000123 ''ffffffff-ffff-4fff-8fff-ffffffffffff''
                       new_carol be0))) =
     [\<lparr>role_id = ''ffffffff-ffff-4fff-8fff-ffffffffffff'', role_user_id = carol, role = user\<rparr>] \<and>
   handle_new_user 1700000000123 ''eeeeeeee-eeee-4eee-8eee-eeeeeeeeeeee'' new_carol
     (be_clash\<lparr>auth_users := auth_users be_clash @ [new_carol]\<rparr>) = Inl Unique_violation \<and>
   snd (create_identity 1700000000123 ''eeeeeeee-eeee-4eee-8eee-eeeeeeeeeeee'' new_carol be_clash)
     = be_clash \<and>
   isl (fst (create_identity 1700000000123 ''eeeeeeee-eeee-4eee-8eee-eeeeeeeeeeee'' new_carol
               be_clash)) \<and>
   new_carol \<notin> set (auth_users be_clash)"
proof -
  let ?rid = "''ffffffff-ffff-4fff-8fff-ffffffffffff''"
  let ?after = "snd (create_identity 1700000000123 ?rid new_carol be0)"
  have ok: "create_identity 1700000000123 ?rid new_carol be0 = (Inr (), ?after)"
    by (simp add: signup_carol)
  note c = C7_signup_bootstrap [of 1700000000123 ?rid new_carol be0 ?after]
  from c ok have
    "filter (\<lambda>p. profile_id p = auth_id new_carol) (profiles ?after) =
       [\<lparr>profile_id = auth_id new_carol, email = auth_email new_carol,
         full_name = map_of (raw_user_meta_data new_carol) ''full_name'',
         created_at = Some 1700000000123\<rparr>]"
    "filter (\<lambda>r. role_user_id r = auth_id new_carol \<and> role r = user) (user_roles ?after) =
       [\<lparr>role_id = ?rid, role_user_id = auth_id new_carol, role = user\<rparr>]"
    by blast+
  then have rows:
    "filter (\<lambda>p. profile_id p = carol) (profiles ?after) =
       [\<lparr>profile_id = carol, email = Some ''carol@example.org'',
         full_name = Some ''Carol Reader'', created_at = Some 1700000000123\<rparr>]"
    "filter (\<lambda>r. role_user_id r = carol \<and> role r = user) (user_roles ?after) =
       [\<lparr>role_id = ?rid, role_user_id = carol, role = user\<rparr>]"
    by (simp_all add: new_carol_def)
  let ?rid' = "''eeeeeeee-eeee-4eee-8eee-eeeeeeeeeeee''"
  note c' = C7_signup_bootstrap [of 1700000000123 ?rid' new_carol be_clash be_clash]
  from c' trigger_fails_on_clash
  obtain e' where fail: "create_identity 1700000000123 ?rid' new_carol be_clash = (Inl e', be_clash)"
    by blast
  have absent: "new_carol \<notin> set (auth_users be_clash)"
    by (simp add: be_clash_def be0_def new_carol_def carol_def alice_def bob_def)
  have fin: "fst (create_identity 1700000000123 ?rid new_carol be0) = Inr ()"
    by (simp add: signup_carol)
  from fin rows trigger_fails_on_clash fail absent show ?thesis by simp
qed

section \<open>The quota check of the upload dialog\<close>

text \<open>
  Claim C9. The limit is 209,715,200 bytes. A file that brings the usage to exactly the
  limit passes the check of \<open>handleFileChange\<close> (it becomes the dialog's file, with no
  notification) and a submit by a logged-in user then sends its upload request. A file is
  rejected exactly when the usage plus its size is strictly greater than the limit: then
  the state is left as it was, the file is not stored in it, the error is shown, and a
  submit from a dialog that held no file sends nothing; in every other case the file is
  stored and nothing is shown.
\<close>

theorem C9_quota_check_is_strict:
  "STORAGE_LIMIT = 209715200 \<and>
   (used + int (f_size f) = STORAGE_LIMIT \<longrightarrow>
      handleFileChange \<lparr>storageUsed = used, storageLimit = STORAGE_LIMIT\<rparr> st (Some (f # fs)) =
        (st\<lparr>st_file := Some f\<rparr>, []) \<and>
      (\<forall>ev uid be. session_user ev = Some uid \<longrightarrow>
         Storage_upload (fileName uid (date_now ev) f) f
           \<in> set (snd (snd (handleUpload ev (st\<lparr>st_file := Some f\<rparr>) be))))) \<and>
   ((snd (handleFileChange P st (Some (f # fs))) \<noteq> []) =
      (storageLimit P < storageUsed P + int (f_size f))) \<and>
   ((fst (handleFileChange P st (Some (f # fs))) = st\<lparr>st_file := Some f\<rparr>) \<or>
      storageLimit P < storageUsed P + int (f_size f)) \<and>
   (storageLimit P < storageUsed P + int (f_size f) \<longrightarrow>
      handleFileChange P st (Some (f # fs)) =
        (st, [Toast_error ''This file would exceed your storage limit of 200MB'']) \<and>
      (st_file st = None \<longrightarrow>
         (\<forall>ev be. handleUpload ev (fst (handleFileChange P st (Some (f # fs)))) be =
            (st, be, [Toast_error ''Please select a file''])))) \<and>
   (storageUsed P + int (f_size f) \<le> storageLimit P \<longrightarrow>
      handleFileChange P st (Some (f # fs)) = (st\<lparr>st_file := Some f\<rparr>, []))"
proof (intro conjI impI allI)
  show "STORAGE_LIMIT = 209715200" by (simp add: STORAGE_LIMIT_def)
  show "handleFileChange \<lparr>storageUsed = used, storageLimit = STORAGE_LIMIT\<rparr> st (Some (f # fs)) =
        (st\<lparr>st_file := Some f\<rparr>, [])"
    if "used + int (f_size f) = STORAGE_LIMIT"
    using that by (simp add: handleFileChange_def)
  show "Storage_upload (fileName uid (date_now ev) f) f
           \<in> set (snd (snd (handleUpload ev (st\<lparr>st_file := Some f\<rparr>) be)))"
    if "session_user ev = Some uid" for ev uid be
    using that by (simp add: handleUpload_sends)
  show "(snd (handleFileChange P st (Some (f # fs))) \<noteq> []) =
      (storageLimit P < storageUsed P + int (f_size f))"
    by (simp add: handleFileChange_def)
  show "(fst (handleFileChange P st (Some (f # fs))) = st\<lparr>st_file := Some f\<rparr>) \<or>
      storageLimit P < storageUsed P + int (f_size f)"
    by (simp add: handleFileChange_def)
  show rejected: "handleFileChange P st (Some (f # fs)) =
        (st, [Toast_error ''This file would exceed your storage limit of 200MB''])"
    if "storageLimit P < storageUsed P + int (f_size f)"
    using that by (simp add: handleFileChange_def)
  show "handleUpload ev (fst (handleFileChange P st (Some (f # fs)))) be =
            (st, be, [Toast_error ''Please select a file''])"
    if "storageLimit P < storageUsed P + int (f_size f)" and "st_file st = None" for ev be
    using that by (simp add: rejected handleUpload_no_file)
  show "handleFileChange P st (Some (f # fs)) = (st\<lparr>st_file := Some f\<rparr>, [])"
    if "storageUsed P + int (f_size f) \<le> storageLimit P"
    using that by (simp add: handleFileChange_def)
qed

theorem C9_quota_check_is_strict_witness:
  "157286400 + int (f_size novel) = STORAGE_LIMIT \<and>
   handleFileChange \<lparr>storageUsed = 157286400, storageLimit = STORAGE_LIMIT\<rparr> dialog_init
      (Some [novel]) = (dialog_init\<lparr>st_file := Some novel\<rparr>, []) \<and>
   session_user env0 = Some alice \<and>
   Storage_upload (fileName alice (date_now env0) novel) novel
     \<in> set (snd (snd (handleUpload env0 (dialog_init\<lparr>st_file := Some novel\<rparr>) be0))) \<and>
   snd (handleFileChange \<lparr>storageUsed = 157286401, storageLimit = STORAGE_LIMIT\<rparr> dialog_init
      (Some [novel])) \<noteq> [] \<and>
   storageLimit \<lparr>storageUsed = 157286401, storageLimit = STORAGE_LIMIT\<rparr>
     < storageUsed \<lparr>storageUsed = 157286401, storageLimit = STORAGE_LIMIT\<rparr> + int (f_size novel) \<and>
   handleFileChange \<lparr>storageUsed = 157286401, storageLimit = STORAGE_LIMIT\<rparr> dialog_init
      (Some [novel]) =
     (dialog_init, [Toast_error ''This file would exceed your storage limit of 200MB'']) \<and>
   st_file dialog_init = None \<and>
   handleUpload env0
     (fst (handleFileChange \<lparr>storageUsed = 157286401, storageLimit = STORAGE_LIMIT\<rparr> dialog_init
        (Some [novel]))) be0 =
     (dialog_init, be0, [Toast_error ''Please select a file''])"
proof -
  let ?P = "\<lparr>storageUsed = 157286401, storageLimit = STORAGE_LIMIT\<rparr>"
  have fit: "157286400 + int (f_size novel) = STORAGE_LIMIT"
    by (simp add: novel_def STORAGE_LIMIT_def)
  have u: "session_user env0 = Some alice" by (simp add: env0_def)
  have over: "storageLimit ?P < storageUsed ?P + int (f_size novel)"
    by (simp add: novel_def STORAGE_LIMIT_def)
  have none: "st_file dialog_init = None" by (simp add: dialog_init_def)
  note c = C9_quota_check_is_strict [of 157286400 novel dialog_init "[]" ?P]
  from c fit u have accepted:
    "handleFileChange \<lparr>storageUsed = 157286400, storageLimit = STORAGE_LIMIT\<rparr> dialog_init
       (Some [novel]) = (dialog_init\<lparr>st_file := Some novel\<rparr>, [])"
    "Storage_upload (fileName alice (date_now env0) novel) novel
       \<in> set (snd (snd (handleUpload env0 (dialog_init\<lparr>st_file := Some novel\<rparr>) be0)))"
    by blast+
  from c over none have rejected:
    "snd (handleFileChange ?P dialog_init (Some [novel])) \<noteq> []"
    "handleFileChange ?P dialog_init (Some [novel]) =
       (dialog_init, [Toast_error ''This file would exceed your storage limit of 200MB''])"
    "handleUpload env0 (fst (handleFileChange ?P dialog_init (Some [novel]))) be0 =
       (dialog_init, be0, [Toast_error ''Please select a file''])"
    by blast+
  from fit u over none accepted rejected show ?thesis by blast
qed

lemma dialog_step_quota_ok:
  assumes "quota_ok P st"
  shows "quota_ok P (fst (fst (dialog_step P e (st, be))))"
    and "Storage_upload path g \<in> set (snd (dialog_step P e (st, be))) \<Longrightarrow>
           storageUsed P + int (f_size g) \<le> storageLimit P"
proof -
  show "quota_ok P (fst (fst (dialog_step P e (st, be))))"
  proof (cases e)
    case (FileChange files)
    then show ?thesis
      using handleFileChange_quota_ok [OF assms, of files] by (simp add: split_beta)
  next
    case (Submit ev)
    then show ?thesis
      using handleUpload_quota_ok [OF assms, of ev be] by (simp add: split_beta)
  qed (use assms in \<open>simp_all add: quota_ok_def\<close>)
  show "storageUsed P + int (f_size g) \<le> storageLimit P"
    if "Storage_upload path g \<in> set (snd (dialog_step P e (st, be)))"
  proof (cases e)
    case (FileChange files)
    with that handleFileChange_silent show ?thesis by (simp add: split_beta)
  next
    case (Submit ev)
    with that have "st_file st = Some g"
      using handleUpload_requests by (simp add: split_beta)
    with assms show ?thesis by (simp add: quota_ok_def)
  qed (use that in simp_all)
qed

lemma dialog_run_quota:
  "quota_ok P (fst s) \<Longrightarrow> \<forall>pe \<in> set evs. fst pe = P \<Longrightarrow>
     Storage_upload path g \<in> set (snd (dialog_run evs s)) \<Longrightarrow>
     storageUsed P + int (f_size g) \<le> storageLimit P"
proof (induction evs arbitrary: s)
  case Nil
  then show ?case by simp
next
  case (Cons pe evs)
  obtain P' e where pe: "pe = (P', e)" by (cases pe)
  obtain st be where s: "s = (st, be)" by (cases s)
  from Cons.prems(2) pe have P': "P' = P" by simp
  let ?s1 = "fst (dialog_step P e (st, be))"
  from Cons.prems(1) s have q: "quota_ok P st" by simp
  have q1: "quota_ok P (fst ?s1)" by (rule dialog_step_quota_ok(1) [OF q])
  from Cons.prems(3) have
    "Storage_upload path g \<in> set (snd (dialog_step P e (st, be))) \<or>
     Storage_upload path g \<in> set (snd (dialog_run evs ?s1))"
    by (auto simp: pe s P' split_beta)
  then show ?case
  proof
    assume "Storage_upload path g \<in> set (snd (dialog_step P e (st, be)))"
    then show ?thesis by (rule dialog_step_quota_ok(2) [OF q])
  next
    assume "Storage_upload path g \<in> set (snd (dialog_run evs ?s1))"
    with Cons.IH [OF q1] Cons.prems(2) show ?thesis by simp
  qed
qed

text \<open>
  Claim C1, as amended. The quota is checked when a file is selected, against the props
  of that moment: a file with \<open>storageUsed + size > storageLimit\<close> is refused there (the
  state is unchanged, an error is shown, nothing is sent). A submit with no file in the
  state sends nothing. So in a dialog that starts with no file and whose props stay the
  same from event to event, every upload request that is sent is for a file with
  \<open>storageUsed + size \<le> storageLimit\<close>.
\<close>

theorem C1_quota_checked_at_selection:
  "(storageLimit P < storageUsed P + int (f_size f) \<longrightarrow>
      handleFileChange P st (Some (f # fs)) =
        (st, [Toast_error ''This file would exceed your storage limit of 200MB''])) \<and>
   (st_file st = None \<longrightarrow>
      handleUpload ev st be = (st, be, [Toast_error ''Please select a file''])) \<and>
   (st_file st = None \<and> (\<forall>pe \<in> set evs. fst pe = P) \<and>
    Storage_upload path g \<in> set (snd (dialog_run evs (st, be))) \<longrightarrow>
      storageUsed P + int (f_size g) \<le> storageLimit P)"
proof (intro conjI impI)
  show "handleFileChange P st (Some (f # fs)) =
        (st, [Toast_error ''This file would exceed your storage limit of 200MB''])"
    if "storageLimit P < storageUsed P + int (f_size f)"
    using that by (simp add: handleFileChange_def)
  show "handleUpload ev st be = (st, be, [Toast_error ''Please select a file''])"
    if "st_file st = None"
    using that by (rule handleUpload_no_file)
  show "storageUsed P + int (f_size g) \<le> storageLimit P"
    if "st_file st = None \<and> (\<forall>pe \<in> set evs. fst pe = P) \<and>
        Storage_upload path g \<in> set (snd (dialog_run evs (st, be)))"
  proof -
    from that have "quota_ok P (fst (st, be))" by (simp add: quota_ok_def)
    with that show ?thesis using dialog_run_quota by blast
  qed
qed

theorem C1_quota_checked_at_selection_witness:
  "storageLimit \<lparr>storageUsed = 199229440, storageLimit = STORAGE_LIMIT\<rparr>
     < storageUsed \<lparr>storageUsed = 199229440, storageLimit = STORAGE_LIMIT\<rparr> + int (f_size novel) \<and>
   handleFileChange \<lparr>storageUsed = 199229440, storageLimit = STORAGE_LIMIT\<rparr> dialog_init
      (Some [novel]) =
     (dialog_init, [Toast_error ''This file would exceed your storage limit of 200MB'']) \<and>
   st_file dialog_init = None \<and>
   handleUpload env0 dialog_init be0 = (dialog_init, be0, [Toast_error ''Please select a file'']) \<and>
   Storage_upload (fileName alice 1700000000000 novel) novel
     \<in> set (snd (dialog_run
          [(\<lparr>storageUsed = 0, storageLimit = STORAGE_LIMIT\<rparr>, FileChange (Some [novel])),
           (\<lparr>storageUsed = 0, storageLimit = STORAGE_LIMIT\<rparr>, Submit env0)]
          (dialog_init, be0))) \<and>
   storageUsed \<lparr>storageUsed = 0, storageLimit = STORAGE_LIMIT\<rparr> + int (f_size novel)
     \<le> storageLimit \<lparr>storageUsed = 0, storageLimit = STORAGE_LIMIT\<rparr>"
proof -
  let ?P = "\<lparr>storageUsed = 199229440, storageLimit = STORAGE_LIMIT\<rparr>"
  let ?Q = "\<lparr>storageUsed = 0, storageLimit = STORAGE_LIMIT\<rparr>"
  let ?evs = "[(?Q, FileChange (Some [novel])), (?Q, Submit env0)]"
  have over: "storageLimit ?P < storageUsed ?P + int (f_size novel)"
    by (simp add: novel_def STORAGE_LIMIT_def)
  have none: "st_file dialog_init = None" by (simp add: dialog_init_def)
  have same: "\<forall>pe \<in> set ?evs. fst pe = ?Q" by simp
  have sel: "handleFileChange ?Q dialog_init (Some [novel]) = (dialog_init\<lparr>st_file := Some novel\<rparr>, [])"
    by (simp add: handleFileChange_def novel_def STORAGE_LIMIT_def)
  have "Storage_upload (fileName alice (date_now env0) novel) novel
          \<in> set (snd (snd (handleUpload env0 (dialog_init\<lparr>st_file := Some novel\<rparr>) be0)))"
    by (rule handleUpload_sends) (simp_all add: env0_def)
  then have sent: "Storage_upload (fileName alice 1700000000000 novel) novel
          \<in> set (snd (dialog_run ?evs (dialog_init, be0)))"
    by (simp add: sel split_beta env0_def)
  note c1 = C1_quota_checked_at_selection [of ?P novel dialog_init "[]" env0 be0 "[]"]
  note c2 = C1_quota_checked_at_selection [of ?Q novel dialog_init "[]" env0 be0 ?evs
      "fileName alice 1700000000000 novel" novel]
  from c1 over none have
    "handleFileChange ?P dialog_init (Some [novel]) =
       (dialog_init, [Toast_error ''This file would exceed your storage limit of 200MB''])"
    "handleUpload env0 dialog_init be0 = (dialog_init, be0, [Toast_error ''Please select a file''])"
    by blast+
  moreover from c2 none same sent have
    "storageUsed ?Q + int (f_size novel) \<le> storageLimit ?Q"
    by blast
  ultimately show ?thesis using over none sent by blast
qed

text \<open>
  \<open>handleUpload\<close> does not check the quota again. The page starts with \<open>storageUsed = 0\<close>
  and learns the real usage when \<open>fetchStorageUsed\<close> returns; a file selected before that
  and submitted after it is uploaded although \<open>storageUsed + size > storageLimit\<close> holds
  at the submit.
\<close>

theorem C1_stale_props_counterexample:
  "st_storageUsed library_init = 0 \<and>
   st_storageUsed (fst (fetchStorageUsed env0 lib_alice be_full)) = 199229440 \<and>
   storageLimit \<lparr>storageUsed = 199229440, storageLimit = STORAGE_LIMIT\<rparr>
     < storageUsed \<lparr>storageUsed = 199229440, storageLimit = STORAGE_LIMIT\<rparr> + int (f_size novel) \<and>
   Storage_upload (fileName alice 1700000000000 novel) novel
     \<in> set (snd (dialog_run
          [(\<lparr>storageUsed = 0, storageLimit = STORAGE_LIMIT\<rparr>, FileChange (Some [novel])),
           (\<lparr>storageUsed = 199229440, storageLimit = STORAGE_LIMIT\<rparr>, Submit env0)]
          (dialog_init, be_full)))"
proof -
  let ?Q = "\<lparr>storageUsed = 0, storageLimit = STORAGE_LIMIT\<rparr>"
  have init: "st_storageUsed library_init = 0" by (simp add: library_init_def)
  have used: "st_storageUsed (fst (fetchStorageUsed env0 lib_alice be_full)) = 199229440"
    by (simp add: fetchStorageUsed_def lib_alice_def library_init_def env0_def
        rpc_get_user_storage_used_def be_full_def be0_def get_user_storage_used_def
        big_book_def coalesce_def to_bigint_def bigint_ok_def)
  have over: "storageLimit \<lparr>storageUsed = 199229440, storageLimit = STORAGE_LIMIT\<rparr>
     < storageUsed \<lparr>storageUsed = 199229440, storageLimit = STORAGE_LIMIT\<rparr> + int (f_size novel)"
    by (simp add: novel_def STORAGE_LIMIT_def)
  have sel: "handleFileChange ?Q dialog_init (Some [novel]) = (dialog_init\<lparr>st_file := Some novel\<rparr>, [])"
    by (simp add: handleFileChange_def novel_def STORAGE_LIMIT_def)
  have "Storage_upload (fileName alice (date_now env0) novel) novel
          \<in> set (snd (snd (handleUpload env0 (dialog_init\<lparr>st_file := Some novel\<rparr>) be_full)))"
    by (rule handleUpload_sends) (simp_all add: env0_def)
  then have sent: "Storage_upload (fileName alice 1700000000000 novel) novel
     \<in> set (snd (dialog_run
          [(?Q, FileChange (Some [novel])),
           (\<lparr>storageUsed = 199229440, storageLimit = STORAGE_LIMIT\<rparr>, Submit env0)]
          (dialog_init, be_full)))"
    by (simp add: sel split_beta env0_def)
  from init used over sent show ?thesis by blast
qed

section \<open>The upload flow\<close>

text \<open>
  Claim C4. When the upload of the object succeeds and the insert of the metadata row
  fails, \<open>handleUpload\<close> asks the storage to remove the object it has just uploaded,
  after the failed insert and before the error notification; it reports no success (no
  success notification, no call of \<open>onBookUploaded\<close>) and no row has been added.
\<close>

theorem C4_compensation_on_insert_failure:
  assumes "st_file st = Some f" and "session_user ev = Some uid"
    and "storage_upload uid (upload_fault ev) (fileName uid (date_now ev) f) f (objects be) = Inr objs"
    and "insert_books uid (insert_fault ev) (new_book ev uid st f) (be\<lparr>objects := objs\<rparr>) = Inl e"
  shows "snd (snd (handleUpload ev st be)) =
           [Auth_getUser, Storage_upload (fileName uid (date_now ev) f) f,
            Books_insert (new_book ev uid st f),
            Storage_remove [fileName uid (date_now ev) f],
            Toast_error ''Failed to save book information''] \<and>
         Storage_remove [fileName uid (date_now ev) f] \<in> set (snd (snd (handleUpload ev st be))) \<and>
         Toast_success ''Book uploaded successfully!'' \<notin> set (snd (snd (handleUpload ev st be))) \<and>
         OnBookUploaded \<notin> set (snd (snd (handleUpload ev st be))) \<and>
         books (fst (snd (handleUpload ev st be))) = books be"
  by (simp add: handleUpload_insert_failed [OF assms] split: sum.splits)

theorem C4_compensation_on_insert_failure_witness:
  "st_file st_novel = Some novel \<and>
   session_user (env0\<lparr>insert_fault := True\<rparr>) = Some alice \<and>
   storage_upload alice False (fileName alice 1700000000000 novel) novel [] =
     Inr [\<lparr>bucket_id = ''books'', name = fileName alice 1700000000000 novel,
           object_size = 52428800, content_type = ''application/epub+zip''\<rparr>] \<and>
   snd (snd (handleUpload (env0\<lparr>insert_fault := True\<rparr>) st_novel be0)) =
     [Auth_getUser, Storage_upload (fileName alice 1700000000000 novel) novel,
      Books_insert (new_book (env0\<lparr>insert_fault := True\<rparr>) alice st_novel novel),
      Storage_remove [fileName alice 1700000000000 novel],
      Toast_error ''Failed to save book information''] \<and>
   books (fst (snd (handleUpload (env0\<lparr>insert_fault := True\<rparr>) st_novel be0))) = []"
proof -
  let ?ev = "env0\<lparr>insert_fault := True\<rparr>"
  let ?ob = "\<lparr>bucket_id = ''books'', name = fileName alice 1700000000000 novel,
           object_size = 52428800, content_type = ''application/epub+zip''\<rparr>"
  have f: "st_file st_novel = Some novel" by (simp add: st_novel_def)
  have u: "session_user ?ev = Some alice" by (simp add: env0_def)
  have up0: "storage_upload alice False (fileName alice 1700000000000 novel) novel [] = Inr [?ob]"
    using storage_upload_ok [OF no_slash_alice, of novel 1700000000000 "[]"]
    by (simp add: novel_def file_size_limit_def)
  then have up: "storage_upload alice (upload_fault ?ev) (fileName alice (date_now ?ev) novel) novel
                  (objects be0) = Inr [?ob]"
    by (simp add: env0_def be0_def)
  have ins: "insert_books alice (insert_fault ?ev) (new_book ?ev alice st_novel novel)
               (be0\<lparr>objects := [?ob]\<rparr>) = Inl Request_failed"
    by (simp add: insert_books_def)
  from C4_compensation_on_insert_failure [OF f u up ins] f u up0 show ?thesis
    by (simp add: env0_def be0_def)
qed

lemma new_book_namespaced:
  "CHR ''/'' \<notin> set uid \<Longrightarrow> path_namespaced (new_book ev uid st f)"
  by (simp add: path_namespaced_def new_book_def fileName_namespaced)

lemma app_step_namespaced:
  assumes "uploader_ok e" and "books_namespaced be"
  shows "books_namespaced (app_step e be)"
proof (cases e)
  case (Upload ev st)
  from handleUpload_books [of ev st be] show ?thesis
  proof
    assume "books (fst (snd (handleUpload ev st be))) = books be"
    with assms(2) Upload show ?thesis by (simp add: books_namespaced_def)
  next
    assume "\<exists>uid f. session_user ev = Some uid \<and> st_file st = Some f \<and>
      books (fst (snd (handleUpload ev st be))) = books be @ [new_book ev uid st f]"
    then obtain uid f where u: "session_user ev = Some uid"
      and b: "books (fst (snd (handleUpload ev st be))) = books be @ [new_book ev uid st f]"
      by blast
    from assms(1) Upload u have "is_uuid uid" by simp
    then have "path_namespaced (new_book ev uid st f)"
      by (simp add: new_book_namespaced is_uuid_no_slash)
    with assms(2) b Upload show ?thesis by (simp add: books_namespaced_def)
  qed
next
  case (Delete ev lib b)
  with assms(2) handleDeleteBook_books [of ev lib be b] show ?thesis
    by (auto simp: books_namespaced_def list_all_iff)
next
  case (Signup ts rid new)
  with assms(2) show ?thesis
    by (simp add: books_namespaced_def create_identity_books)
qed

lemma app_run_namespaced:
  "list_all uploader_ok evs \<Longrightarrow> books_namespaced be \<Longrightarrow> books_namespaced (app_run evs be)"
  by (induction evs arbitrary: be) (simp_all add: app_step_namespaced)

text \<open>
  Claim C5. The row that \<open>handleUpload\<close> inserts for a user whose id is a uuid has the
  path \<open>{user_id}/{timestamp}.{ext}\<close>, is owned by that user, has the user's id as the
  first segment of its path, and the storage insert policy admits the object at that
  path for that user. Every insert that \<open>handleUpload\<close> requests is of such a row. In
  every run of the system (uploads, deletes and signups by any users, in any order) the
  invariant that every book row's path is in the folder of its owner is preserved.
\<close>

theorem C5_paths_namespaced_by_owner:
  "(is_uuid uid \<longrightarrow>
      file_path (new_book ev uid st f) =
        uid @ ''/'' @ show_nat (date_now ev) @ ''.'' @ last (split CHR ''.'' (f_name f)) \<and>
      user_id (new_book ev uid st f) = uid \<and>
      subscript1 (foldername (file_path (new_book ev uid st f))) = Some uid \<and>
      objects_insert_policy uid
        \<lparr>bucket_id = ''books'', name = file_path (new_book ev uid st f),
         object_size = f_size f, content_type = f_type f\<rparr>) \<and>
   (\<forall>r. Books_insert r \<in> set (snd (snd (handleUpload ev st be))) \<longrightarrow>
      (\<exists>u g. session_user ev = Some u \<and> st_file st = Some g \<and> r = new_book ev u st g)) \<and>
   (list_all uploader_ok evs \<and> books_namespaced be \<longrightarrow> books_namespaced (app_run evs be))"
proof (intro conjI impI allI)
  assume u: "is_uuid uid"
  show "file_path (new_book ev uid st f) =
        uid @ ''/'' @ show_nat (date_now ev) @ ''.'' @ last (split CHR ''.'' (f_name f))"
    by (simp add: new_book_def fileName_def pop_split del: show_nat.simps)
  show "user_id (new_book ev uid st f) = uid" by (simp add: new_book_def)
  from u show ns: "subscript1 (foldername (file_path (new_book ev uid st f))) = Some uid"
    by (simp add: new_book_def fileName_namespaced is_uuid_no_slash)
  then show "objects_insert_policy uid
        \<lparr>bucket_id = ''books'', name = file_path (new_book ev uid st f),
         object_size = f_size f, content_type = f_type f\<rparr>"
    by (simp add: objects_insert_policy_def)
next
  fix r
  assume "Books_insert r \<in> set (snd (snd (handleUpload ev st be)))"
  then show "\<exists>u g. session_user ev = Some u \<and> st_file st = Some g \<and> r = new_book ev u st g"
    by (rule handleUpload_inserts)
next
  assume "list_all uploader_ok evs \<and> books_namespaced be"
  then show "books_namespaced (app_run evs be)"
    by (simp add: app_run_namespaced)
qed

theorem C5_paths_namespaced_by_owner_witness:
  "is_uuid alice \<and>
   file_path (new_book env0 alice st_novel novel) =
     ''11111111-1111-4111-8111-111111111111/1700000000000.epub'' \<and>
   Books_insert (new_book env0 alice st_novel novel)
     \<in> set (snd (snd (handleUpload env0 st_novel be0))) \<and>
   list_all uploader_ok [Upload env0 st_novel] \<and> books_namespaced be0 \<and>
   books (app_run [Upload env0 st_novel] be0) = [new_book env0 alice st_novel novel] \<and>
   books_namespaced (app_run [Upload env0 st_novel] be0)"
proof -
  note c = C5_paths_namespaced_by_owner [of alice env0 st_novel novel be0
      "[Upload env0 st_novel]"]
  have ok: "list_all uploader_ok [Upload env0 st_novel]"
    using is_uuid_alice by (simp add: env0_def)
  have b0: "books_namespaced be0" by (simp add: books_namespaced_def be0_def)
  from c is_uuid_alice have
    "file_path (new_book env0 alice st_novel novel) =
       alice @ ''/'' @ show_nat (date_now env0) @ ''.'' @ last (split CHR ''.'' (f_name novel))"
    by blast
  then have path: "file_path (new_book env0 alice st_novel novel) =
     ''11111111-1111-4111-8111-111111111111/1700000000000.epub''"
    by (simp add: alice_def env0_def show_nat_now novel_def del: show_nat.simps)
  have ins: "Books_insert (new_book env0 alice st_novel novel)
     \<in> set (snd (snd (handleUpload env0 st_novel be0)))"
    by (simp add: upload_novel_ok)
  have run: "books (app_run [Upload env0 st_novel] be0) = [new_book env0 alice st_novel novel]"
    by (simp add: upload_novel_ok)
  from c ok b0 have "books_namespaced (app_run [Upload env0 st_novel] be0)" by blast
  with is_uuid_alice path ins ok b0 run show ?thesis by blast
qed

text \<open>
  Claim C8. After an upload that reports success, a list fetch for the same user that
  does not fail holds exactly the rows that a fetch before the upload held and one more
  row. That row was not in the table before; it is owned by the user, its title is the
  title of the form, its author is the author of the form (NULL when the field was left
  empty), its \<open>file_size\<close> is the size of the file, and the object stored at its path has
  that size.
\<close>

theorem C8_upload_then_list:
  assumes ok: "Toast_success ''Book uploaded successfully!'' \<in> set (snd (snd (handleUpload ev st be)))"
    and caller: "session_user ev = Some uid"
    and same: "st_user lib = Some uid"
    and fetch1: "\<not> select_fault ev1"
    and fetch2: "\<not> select_fault ev2"
  shows "\<exists>f r. st_file st = Some f \<and> r = new_book ev uid st f \<and>
           mset (st_books (fst (fetchBooks ev2 lib (fst (snd (handleUpload ev st be)))))) =
             add_mset r (mset (st_books (fst (fetchBooks ev1 lib be)))) \<and>
           r \<notin> set (st_books (fst (fetchBooks ev1 lib be))) \<and>
           r \<notin> set (books be) \<and>
           user_id r = uid \<and>
           title r = st_title st \<and>
           author r = (if st_author st = [] then None else Some (st_author st)) \<and>
           file_size r = int (f_size f) \<and>
           (\<exists>ob \<in> set (objects (fst (snd (handleUpload ev st be)))).
              bucket_id ob = ''books'' \<and> name ob = file_path r \<and>
              object_size ob = f_size f)"
proof -
  from handleUpload_reports_success [OF ok] caller
  obtain f objs tbl where f: "st_file st = Some f"
    and up: "storage_upload uid (upload_fault ev) (fileName uid (date_now ev) f) f (objects be) = Inr objs"
    and ins: "insert_books uid (insert_fault ev) (new_book ev uid st f) (be\<lparr>objects := objs\<rparr>) = Inr tbl"
    by auto
  let ?r = "new_book ev uid st f"
  let ?ob = "\<lparr>bucket_id = ''books'', name = fileName uid (date_now ev) f, object_size = f_size f,
               content_type = f_type f\<rparr>"
  from insert_books_Inr [OF ins] have tbl: "tbl = books be @ [?r]"
    and fresh: "book_id ?r \<notin> set (map book_id (books be))"
    by simp_all
  from storage_upload_Inr [OF up] have objs: "objs = objects be @ [?ob]" .
  have after: "fst (snd (handleUpload ev st be)) = be\<lparr>objects := objs, books := tbl\<rparr>"
    by (simp add: handleUpload_success [OF f caller up ins])
  have new: "?r \<notin> set (books be)"
    using fresh by (metis image_eqI list.set_map)
  have own: "user_id ?r = uid" by (simp add: new_book_def)
  have before_list: "mset (st_books (fst (fetchBooks ev1 lib be))) =
                       mset (filter (\<lambda>r. user_id r = uid) (books be))"
    by (simp add: fetchBooks_ok [OF same fetch1] mset_order_by_uploaded_at_desc)
  have after_list: "mset (st_books (fst (fetchBooks ev2 lib (fst (snd (handleUpload ev st be)))))) =
                      add_mset ?r (mset (filter (\<lambda>r. user_id r = uid) (books be)))"
    using own
    by (simp add: fetchBooks_ok [OF same fetch2] mset_order_by_uploaded_at_desc after tbl)
  have not_listed: "?r \<notin> set (st_books (fst (fetchBooks ev1 lib be)))"
  proof
    assume "?r \<in> set (st_books (fst (fetchBooks ev1 lib be)))"
    then have "?r \<in># mset (st_books (fst (fetchBooks ev1 lib be)))" by simp
    with before_list have "?r \<in> set (filter (\<lambda>r. user_id r = uid) (books be))"
      by (metis set_mset_mset)
    with new show False by simp
  qed
  have stored: "\<exists>ob \<in> set (objects (fst (snd (handleUpload ev st be)))).
              bucket_id ob = ''books'' \<and> name ob = file_path ?r \<and> object_size ob = f_size f"
    by (rule bexI [of _ ?ob]) (simp_all add: after objs new_book_def)
  have fields: "title ?r = st_title st"
    "author ?r = (if st_author st = [] then None else Some (st_author st))"
    "file_size ?r = int (f_size f)"
    by (simp_all add: new_book_def)
  from f after_list before_list not_listed new own fields stored show ?thesis
    by (intro exI [of _ f] exI [of _ ?r]) simp
qed

theorem C8_upload_then_list_witness:
  "Toast_success ''Book uploaded successfully!'' \<in> set (snd (snd (handleUpload env0 st_novel be0))) \<and>
   session_user env0 = Some alice \<and> st_user lib_alice = Some alice \<and> \<not> select_fault env0 \<and>
   st_books (fst (fetchBooks env0 lib_alice be0)) = [] \<and>
   st_books (fst (fetchBooks env0 lib_alice (fst (snd (handleUpload env0 st_novel be0))))) =
     [new_book env0 alice st_novel novel] \<and>
   title (new_book env0 alice st_novel novel) = ''Novel'' \<and>
   author (new_book env0 alice st_novel novel) = Some ''Ann Author'' \<and>
   file_size (new_book env0 alice st_novel novel) = 52428800"
proof -
  have ok: "Toast_success ''Book uploaded successfully!'' \<in> set (snd (snd (handleUpload env0 st_novel be0)))"
    by (simp add: upload_novel_ok)
  have caller: "session_user env0 = Some alice" by (simp add: env0_def)
  have same: "st_user lib_alice = Some alice" by (simp add: lib_alice_def)
  have nofault: "\<not> select_fault env0" by (simp add: env0_def)
  have before: "st_books (fst (fetchBooks env0 lib_alice be0)) = []"
    by (simp add: fetchBooks_ok [OF same nofault] be0_def order_by_uploaded_at_desc_def)
  have sel: "st_file st_novel = Some novel" by (simp add: st_novel_def)
  from C8_upload_then_list [OF ok caller same nofault nofault] sel
  have "mset (st_books (fst (fetchBooks env0 lib_alice (fst (snd (handleUpload env0 st_novel be0)))))) =
          add_mset (new_book env0 alice st_novel novel)
            (mset (st_books (fst (fetchBooks env0 lib_alice be0))))"
    by auto
  with before have after:
    "st_books (fst (fetchBooks env0 lib_alice (fst (snd (handleUpload env0 st_novel be0))))) =
       [new_book env0 alice st_novel novel]"
    by simp
  have fields: "title (new_book env0 alice st_novel novel) = ''Novel''"
    "author (new_book env0 alice st_novel novel) = Some ''Ann Author''"
    "file_size (new_book env0 alice st_novel novel) = 52428800"
    by (simp_all add: new_book_def st_novel_def novel_def)
  from ok caller same nofault before after fields show ?thesis by blast
qed

section \<open>The delete flow\<close>

text \<open>
  Claim C3, as amended. In \<open>handleDeleteBook\<close> for a logged-in user the delete of the
  metadata row is the first request. When it fails, nothing else is requested, the error
  is shown and nothing has changed. When it succeeds, the removal of the storage object
  at the book's \<open>file_path\<close> is requested next, and no other removal; success is reported
  whatever the outcome of the removal, which is only logged when it fails. The delete
  runs under row-level security: the table afterwards is the table before without the
  rows of that id that the caller owns. So after a delete that reports success the
  metadata row is absent when the book is the caller's own, whether the removal of the
  object succeeded or failed; the row of a book that another user owns is still there.
\<close>

theorem C3_delete_row_then_object:
  assumes user: "st_user lib = Some uid"
    and run: "handleDeleteBook ev lib be b = (lib', be', acts)"
  shows "(\<exists>rest. acts = Books_delete (book_id b) # rest) \<and>
         (\<forall>e. delete_books uid (delete_fault ev) (\<lambda>r. book_id r = book_id b) (books be) = Inl e \<longrightarrow>
            acts = [Books_delete (book_id b), Toast_error ''Failed to delete book''] \<and>
            be' = be \<and> lib' = lib) \<and>
         (\<forall>tbl. delete_books uid (delete_fault ev) (\<lambda>r. book_id r = book_id b) (books be) = Inr tbl \<longrightarrow>
            acts =
              [Books_delete (book_id b), Storage_remove [file_path b]] @
              (case storage_remove uid (remove_fault ev) [file_path b] (objects be) of
                 Inl e \<Rightarrow> [Console_error ''Storage deletion error:'']
               | Inr objs \<Rightarrow> []) @
              [Toast_success ''Book deleted successfully''] @
              snd (fetchBooks ev lib be') @
              snd (fetchStorageUsed ev (fst (fetchBooks ev lib be')) be') \<and>
            books be' = filter (\<lambda>r. \<not> (user_id r = uid \<and> book_id r = book_id b)) (books be) \<and>
            objects be' =
              (case storage_remove uid (remove_fault ev) [file_path b] (objects be) of
                 Inl e \<Rightarrow> objects be
               | Inr objs \<Rightarrow> objs)) \<and>
         ((Storage_remove [file_path b] \<in> set acts) =
            (\<exists>tbl. delete_books uid (delete_fault ev) (\<lambda>r. book_id r = book_id b) (books be) = Inr tbl)) \<and>
         (\<forall>paths. Storage_remove paths \<in> set acts \<longrightarrow> paths = [file_path b]) \<and>
         ((\<exists>m. Toast_success m \<in> set acts) =
            (\<exists>tbl. delete_books uid (delete_fault ev) (\<lambda>r. book_id r = book_id b) (books be) = Inr tbl)) \<and>
         ((\<exists>m. Toast_success m \<in> set acts) \<longrightarrow>
            (\<forall>r \<in> set (books be'). book_id r = book_id b \<longrightarrow> user_id r \<noteq> uid) \<and>
            (user_id b = uid \<longrightarrow> b \<notin> set (books be')) \<and>
            (user_id b \<noteq> uid \<and> b \<in> set (books be) \<longrightarrow> b \<in> set (books be')))"
proof (cases "delete_books uid (delete_fault ev) (\<lambda>r. book_id r = book_id b) (books be)")
  case (Inl e)
  from handleDeleteBook_failed [OF user Inl] run
  have "acts = [Books_delete (book_id b), Toast_error ''Failed to delete book'']"
    and "be' = be" and "lib' = lib"
    by simp_all
  with Inl show ?thesis by simp
next
  case (Inr tbl)
  define rm where "rm = storage_remove uid (remove_fault ev) [file_path b] (objects be)"
  define logged where
    "logged = (case rm of Inl e \<Rightarrow> [Console_error ''Storage deletion error:''] | Inr objs \<Rightarrow> [])"
  let ?fetched = "snd (fetchBooks ev lib be') @
                  snd (fetchStorageUsed ev (fst (fetchBooks ev lib be')) be')"
  from handleDeleteBook_deleted [OF user Inr] run
  have be': "be' = (case rm of Inl e \<Rightarrow> be\<lparr>books := tbl\<rparr>
                    | Inr objs \<Rightarrow> be\<lparr>books := tbl, objects := objs\<rparr>)"
    by (simp add: Let_def rm_def)
  from handleDeleteBook_deleted [OF user Inr] run
  have acts: "acts = [Books_delete (book_id b), Storage_remove [file_path b]] @ logged @
                [Toast_success ''Book deleted successfully''] @ ?fetched"
    by (auto simp: Let_def rm_def logged_def)
  have tbl: "tbl = filter (\<lambda>r. \<not> (user_id r = uid \<and> book_id r = book_id b)) (books be)"
    by (rule delete_books_Inr [OF Inr])
  have books: "books be' = tbl"
    by (cases rm) (simp_all add: be')
  have objs: "objects be' = (case rm of Inl e \<Rightarrow> objects be | Inr objs \<Rightarrow> objs)"
    by (cases rm) (simp_all add: be')
  have l: "set logged \<subseteq> {Console_error ''Storage deletion error:''}"
    by (cases rm) (simp_all add: logged_def)
  have f: "\<forall>x \<in> set ?fetched. (\<exists>u. x = Books_select u) \<or> x = Toast_error ''Failed to load books''
               \<or> (\<exists>u. x = Rpc_get_user_storage_used u)"
    using fetchBooks_actions fetchStorageUsed_actions by fastforce
  have only: "paths = [file_path b]" if "Storage_remove paths \<in> set acts" for paths
  proof -
    from that have "Storage_remove paths = Storage_remove [file_path b] \<or>
        Storage_remove paths \<in> set logged \<or> Storage_remove paths \<in> set ?fetched"
      unfolding acts by simp
    with l f show ?thesis by blast
  qed
  have toast: "Toast_success ''Book deleted successfully'' \<in> set acts"
    by (simp add: acts)
  have rem: "Storage_remove [file_path b] \<in> set acts"
    by (simp add: acts)
  have gone: "\<forall>r \<in> set (books be'). book_id r = book_id b \<longrightarrow> user_id r \<noteq> uid"
    unfolding books tbl by auto
  have own: "user_id b = uid \<longrightarrow> b \<notin> set (books be')"
    by (simp add: books tbl)
  have foreign: "user_id b \<noteq> uid \<and> b \<in> set (books be) \<longrightarrow> b \<in> set (books be')"
    by (simp add: books tbl)
  have first: "\<exists>rest. acts = Books_delete (book_id b) # rest"
    by (simp add: acts)
  have exact: "acts =
              [Books_delete (book_id b), Storage_remove [file_path b]] @
              (case storage_remove uid (remove_fault ev) [file_path b] (objects be) of
                 Inl e \<Rightarrow> [Console_error ''Storage deletion error:'']
               | Inr objs \<Rightarrow> []) @
              [Toast_success ''Book deleted successfully''] @
              snd (fetchBooks ev lib be') @
              snd (fetchStorageUsed ev (fst (fetchBooks ev lib be')) be')"
    using acts by (simp add: logged_def rm_def)
  have after: "books be' = filter (\<lambda>r. \<not> (user_id r = uid \<and> book_id r = book_id b)) (books be)"
    using books tbl by simp
  have stored: "objects be' =
              (case storage_remove uid (remove_fault ev) [file_path b] (objects be) of
                 Inl e \<Rightarrow> objects be
               | Inr objs \<Rightarrow> objs)"
    using objs by (simp add: rm_def)
  from Inr have succeeded:
    "\<exists>tbl. delete_books uid (delete_fault ev) (\<lambda>r. book_id r = book_id b) (books be) = Inr tbl"
    by blast
  show ?thesis
  proof (intro conjI)
    show "\<exists>rest. acts = Books_delete (book_id b) # rest" by (rule first)
    show "\<forall>e. delete_books uid (delete_fault ev) (\<lambda>r. book_id r = book_id b) (books be) = Inl e \<longrightarrow>
            acts = [Books_delete (book_id b), Toast_error ''Failed to delete book''] \<and>
            be' = be \<and> lib' = lib"
      using Inr by simp
    show "\<forall>tbl. delete_books uid (delete_fault ev) (\<lambda>r. book_id r = book_id b) (books be) = Inr tbl \<longrightarrow>
            acts =
              [Books_delete (book_id b), Storage_remove [file_path b]] @
              (case storage_remove uid (remove_fault ev) [file_path b] (objects be) of
                 Inl e \<Rightarrow> [Console_error ''Storage deletion error:'']
               | Inr objs \<Rightarrow> []) @
              [Toast_success ''Book deleted successfully''] @
              snd (fetchBooks ev lib be') @
              snd (fetchStorageUsed ev (fst (fetchBooks ev lib be')) be') \<and>
            books be' = filter (\<lambda>r. \<not> (user_id r = uid \<and> book_id r = book_id b)) (books be) \<and>
            objects be' =
              (case storage_remove uid (remove_fault ev) [file_path b] (objects be) of
                 Inl e \<Rightarrow> objects be
               | Inr objs \<Rightarrow> objs)"
      using exact after stored by blast
    show "(Storage_remove [file_path b] \<in> set acts) =
            (\<exists>tbl. delete_books uid (delete_fault ev) (\<lambda>r. book_id r = book_id b) (books be) = Inr tbl)"
      using rem succeeded by blast
    show "\<forall>paths. Storage_remove paths \<in> set acts \<longrightarrow> paths = [file_path b]"
      using only by blast
    show "(\<exists>m. Toast_success m \<in> set acts) =
            (\<exists>tbl. delete_books uid (delete_fault ev) (\<lambda>r. book_id r = book_id b) (books be) = Inr tbl)"
      using toast succeeded by blast
    show "(\<exists>m. Toast_success m \<in> set acts) \<longrightarrow>
            (\<forall>r \<in> set (books be'). book_id r = book_id b \<longrightarrow> user_id r \<noteq> uid) \<and>
            (user_id b = uid \<longrightarrow> b \<notin> set (books be')) \<and>
            (user_id b \<noteq> uid \<and> b \<in> set (books be) \<longrightarrow> b \<in> set (books be'))"
      using gone own foreign by blast
  qed
qed

theorem C3_delete_row_then_object_witness:
  "st_user lib_alice = Some alice \<and>
   user_id alices_book = alice \<and>
   alices_book \<in> set (books be_shared) \<and>
   Storage_remove [file_path alices_book]
     \<in> set (snd (snd (handleDeleteBook (env0\<lparr>remove_fault := True\<rparr>) lib_alice be_shared alices_book))) \<and>
   Toast_success ''Book deleted successfully''
     \<in> set (snd (snd (handleDeleteBook (env0\<lparr>remove_fault := True\<rparr>) lib_alice be_shared alices_book))) \<and>
   alices_book
     \<notin> set (books (fst (snd (handleDeleteBook (env0\<lparr>remove_fault := True\<rparr>) lib_alice be_shared alices_book)))) \<and>
   books (fst (snd (handleDeleteBook (env0\<lparr>remove_fault := True\<rparr>) lib_alice be_shared alices_book)))
     = [bobs_book] \<and>
   object_of alices_book
     \<in> set (objects (fst (snd (handleDeleteBook (env0\<lparr>remove_fault := True\<rparr>) lib_alice be_shared alices_book))))"
proof -
  let ?ev = "env0\<lparr>remove_fault := True\<rparr>"
  let ?X = "handleDeleteBook ?ev lib_alice be_shared alices_book"
  have u: "st_user lib_alice = Some alice" by (simp add: lib_alice_def)
  have own: "user_id alices_book = alice" by (simp add: alices_book_def)
  have mem: "alices_book \<in> set (books be_shared)" by (simp add: be_shared_def)
  have run: "?X = (fst ?X, fst (snd ?X), snd (snd ?X))" by simp
  have del: "delete_books alice (delete_fault ?ev) (\<lambda>r. book_id r = book_id alices_book) (books be_shared)
               = Inr [bobs_book]"
    by (simp add: delete_books_def env0_def be_shared_def books_select_policy_def
        books_delete_policy_def bobs_book_def alices_book_def alice_def bob_def)
  have rm: "storage_remove alice (remove_fault ?ev) [file_path alices_book] (objects be_shared)
              = Inl Request_failed"
    by (simp add: storage_remove_def env0_def)
  note c = C3_delete_row_then_object [OF u run]
  from c del have rem: "Storage_remove [file_path alices_book] \<in> set (snd (snd ?X))"
    and ok: "\<exists>m. Toast_success m \<in> set (snd (snd ?X))"
    by blast+
  from c ok own have gone: "alices_book \<notin> set (books (fst (snd ?X)))" by blast
  from c del have
    "books (fst (snd ?X)) =
       filter (\<lambda>r. \<not> (user_id r = alice \<and> book_id r = book_id alices_book)) (books be_shared)"
    by blast
  then have left: "books (fst (snd ?X)) = [bobs_book]"
    using alice_neq_bob by (simp add: be_shared_def bobs_book_def alices_book_def)
  from c del have
    "snd (snd ?X) =
       [Books_delete (book_id alices_book), Storage_remove [file_path alices_book]] @
       (case storage_remove alice (remove_fault ?ev) [file_path alices_book] (objects be_shared) of
          Inl e \<Rightarrow> [Console_error ''Storage deletion error:'']
        | Inr objs \<Rightarrow> []) @
       [Toast_success ''Book deleted successfully''] @
       snd (fetchBooks ?ev lib_alice (fst (snd ?X))) @
       snd (fetchStorageUsed ?ev (fst (fetchBooks ?ev lib_alice (fst (snd ?X)))) (fst (snd ?X)))"
    by blast
  then have "\<exists>pre post. snd (snd ?X) = pre @ Toast_success ''Book deleted successfully'' # post"
    by (metis append_Cons append_Nil)
  then have toast: "Toast_success ''Book deleted successfully'' \<in> set (snd (snd ?X))"
    by auto
  from c del have
    "objects (fst (snd ?X)) =
       (case storage_remove alice (remove_fault ?ev) [file_path alices_book] (objects be_shared) of
          Inl e \<Rightarrow> objects be_shared
        | Inr objs \<Rightarrow> objs)"
    by blast
  then have "objects (fst (snd ?X)) = objects be_shared"
    by (simp only: rm sum.case)
  then have orphan: "object_of alices_book \<in> set (objects (fst (snd ?X)))"
    by (simp add: be_shared_def)
  from u own mem rem toast gone left orphan show ?thesis by blast
qed

text \<open>
  The list of the page is not cleared when the user of the session changes, so a card of
  the previous user can be deleted under the new identity. The delete then affects no
  row and returns no error: success is reported and the row is still in the table.
\<close>

theorem C3_foreign_book_counterexample:
  "st_user lib_stale = Some alice \<and>
   bobs_book \<in> set (st_books lib_stale) \<and>
   user_id bobs_book = bob \<and>
   delete_books alice (delete_fault env0) (\<lambda>r. book_id r = book_id bobs_book) (books be_shared)
     = Inr (books be_shared) \<and>
   Toast_success ''Book deleted successfully''
     \<in> set (snd (snd (handleDeleteBook env0 lib_stale be_shared bobs_book))) \<and>
   bobs_book \<in> set (books (fst (snd (handleDeleteBook env0 lib_stale be_shared bobs_book))))"
proof -
  have u: "st_user lib_stale = Some alice" by (simp add: lib_stale_def lib_alice_def)
  have listed: "bobs_book \<in> set (st_books lib_stale)" by (simp add: lib_stale_def)
  have own: "user_id bobs_book = bob" by (simp add: bobs_book_def)
  have del: "delete_books alice (delete_fault env0) (\<lambda>r. book_id r = book_id bobs_book)
               (books be_shared) = Inr (books be_shared)"
    by (simp add: delete_books_def env0_def be_shared_def books_select_policy_def
        books_delete_policy_def bobs_book_def alices_book_def alice_def bob_def)
  note eq = handleDeleteBook_deleted [OF u del]
  have toast: "Toast_success ''Book deleted successfully''
     \<in> set (snd (snd (handleDeleteBook env0 lib_stale be_shared bobs_book)))"
    by (simp add: eq Let_def)
  have "books (fst (snd (handleDeleteBook env0 lib_stale be_shared bobs_book))) = books be_shared"
    by (simp add: eq Let_def split: sum.splits)
  then have still: "bobs_book \<in> set (books (fst (snd (handleDeleteBook env0 lib_stale be_shared bobs_book))))"
    by (simp add: be_shared_def)
  from u listed own del toast still show ?thesis by blast
qed

end
